theory Spec2Isabelle
  imports Main "HOL-Library.Word"
begin

unbundle bit_operations_syntax

section \<open>Wire protocol (protocol/vusb\_protocol.h)\<close>

text \<open>
  The C sources use fixed-width unsigned integers; they are modelled as machine words, so
  that every addition, subtraction and cast wraps as it does in C.  Byte buffers are lists
  of bytes.
\<close>

type_synonym uint8_t = "8 word"
type_synonym uint16_t = "16 word"
type_synonym uint32_t = "32 word"
type_synonym uint64_t = "64 word"
type_synonym bytes = "uint8_t list"

definition VUSB_PROTOCOL_MAGIC :: uint32_t where
  "VUSB_PROTOCOL_MAGIC = 0x56555342"

definition VUSB_PROTOCOL_VERSION :: uint16_t where
  "VUSB_PROTOCOL_VERSION = 0x0100"

definition VUSB_MAX_PACKET_SIZE :: nat where
  "VUSB_MAX_PACKET_SIZE = 65536"

definition VUSB_MAX_DEVICES :: nat where
  "VUSB_MAX_DEVICES = 16"

text \<open>Command codes of \<^verbatim>\<open>enum _VUSB_COMMAND\<close> that the modelled code paths use.\<close>

definition VUSB_CMD_CONNECT :: uint16_t where "VUSB_CMD_CONNECT = 0x0001"
definition VUSB_CMD_DISCONNECT :: uint16_t where "VUSB_CMD_DISCONNECT = 0x0002"
definition VUSB_CMD_PING :: uint16_t where "VUSB_CMD_PING = 0x0003"
definition VUSB_CMD_PONG :: uint16_t where "VUSB_CMD_PONG = 0x0004"
definition VUSB_CMD_DEVICE_ATTACH :: uint16_t where "VUSB_CMD_DEVICE_ATTACH = 0x0010"
definition VUSB_CMD_DEVICE_DETACH :: uint16_t where "VUSB_CMD_DEVICE_DETACH = 0x0011"
definition VUSB_CMD_DEVICE_LIST :: uint16_t where "VUSB_CMD_DEVICE_LIST = 0x0012"
definition VUSB_CMD_SUBMIT_URB :: uint16_t where "VUSB_CMD_SUBMIT_URB = 0x0020"
definition VUSB_CMD_URB_COMPLETE :: uint16_t where "VUSB_CMD_URB_COMPLETE = 0x0021"
definition VUSB_CMD_CANCEL_URB :: uint16_t where "VUSB_CMD_CANCEL_URB = 0x0022"
definition VUSB_CMD_ERROR :: uint16_t where "VUSB_CMD_ERROR = 0x00FF"

text \<open>Status codes of \<^verbatim>\<open>enum _VUSB_STATUS\<close>.\<close>

definition VUSB_STATUS_SUCCESS :: uint32_t where "VUSB_STATUS_SUCCESS = 0"
definition VUSB_STATUS_ERROR :: uint32_t where "VUSB_STATUS_ERROR = 2"
definition VUSB_STATUS_CANCELED :: uint32_t where "VUSB_STATUS_CANCELED = 5"
definition VUSB_STATUS_NO_DEVICE :: uint32_t where "VUSB_STATUS_NO_DEVICE = 6"
definition VUSB_STATUS_INVALID_PARAM :: uint32_t where "VUSB_STATUS_INVALID_PARAM = 7"
definition VUSB_STATUS_NO_MEMORY :: uint32_t where "VUSB_STATUS_NO_MEMORY = 8"
definition VUSB_STATUS_NOT_SUPPORTED :: uint32_t where "VUSB_STATUS_NOT_SUPPORTED = 9"

text \<open>\<^verbatim>\<open>enum _VUSB_TRANSFER_TYPE\<close> and \<^verbatim>\<open>enum _VUSB_DIRECTION\<close>, stored in one byte.\<close>

definition VUSB_TRANSFER_CONTROL :: uint8_t where "VUSB_TRANSFER_CONTROL = 0"
definition VUSB_TRANSFER_ISOCHRONOUS :: uint8_t where "VUSB_TRANSFER_ISOCHRONOUS = 1"
definition VUSB_TRANSFER_BULK :: uint8_t where "VUSB_TRANSFER_BULK = 2"
definition VUSB_TRANSFER_INTERRUPT :: uint8_t where "VUSB_TRANSFER_INTERRUPT = 3"

definition VUSB_DIR_OUT :: uint8_t where "VUSB_DIR_OUT = 0"
definition VUSB_DIR_IN :: uint8_t where "VUSB_DIR_IN = 1"

subsection \<open>The protocol header\<close>

record VUSB_HEADER =
  Magic :: uint32_t
  Version :: uint16_t
  Command :: uint16_t
  Length :: uint32_t
  Sequence :: uint32_t

definition sizeof_VUSB_HEADER :: nat where
  "sizeof_VUSB_HEADER = 16"

text \<open>
  \<^verbatim>\<open>VusbInitHeader\<close> assigns all five fields of the header it is handed, so the model
  returns the header it leaves behind.
\<close>

definition VusbInitHeader :: "uint16_t \<Rightarrow> uint32_t \<Rightarrow> uint32_t \<Rightarrow> VUSB_HEADER" where
  "VusbInitHeader command len sequence =
     \<lparr>Magic = VUSB_PROTOCOL_MAGIC, Version = VUSB_PROTOCOL_VERSION,
      Command = command, Length = len, Sequence = sequence\<rparr>"

definition VusbValidateHeader :: "VUSB_HEADER \<Rightarrow> bool" where
  "VusbValidateHeader header \<longleftrightarrow>
     Magic header = VUSB_PROTOCOL_MAGIC \<and> Version header = VUSB_PROTOCOL_VERSION"

subsection \<open>Packed little-endian layout\<close>

text \<open>
  Every wire structure is declared under \<^verbatim>\<open>#pragma pack(push, 1)\<close> and is sent and
  received by handing the structure's own memory to \<^verbatim>\<open>send\<close> and \<^verbatim>\<open>recv\<close>.  On the
  little-endian hosts the programs are built for, the image of a structure is the
  concatenation of its fields, least significant byte first.
\<close>

definition put_le16 :: "uint16_t \<Rightarrow> bytes" where
  "put_le16 w = [ucast w, ucast (drop_bit 8 w)]"

definition put_le32 :: "uint32_t \<Rightarrow> bytes" where
  "put_le32 w = [ucast w, ucast (drop_bit 8 w), ucast (drop_bit 16 w), ucast (drop_bit 24 w)]"

fun get_le16 :: "bytes \<Rightarrow> uint16_t" where
  "get_le16 (b0 # b1 # _) = ucast b0 OR push_bit 8 (ucast b1)"
| "get_le16 _ = 0"

fun get_le32 :: "bytes \<Rightarrow> uint32_t" where
  "get_le32 (b0 # b1 # b2 # b3 # _) =
     ucast b0 OR push_bit 8 (ucast b1) OR push_bit 16 (ucast b2) OR push_bit 24 (ucast b3)"
| "get_le32 _ = 0"

definition VUSB_HEADER_bytes :: "VUSB_HEADER \<Rightarrow> bytes" where
  "VUSB_HEADER_bytes header =
     put_le32 (Magic header) @ put_le16 (Version header) @ put_le16 (Command header) @
     put_le32 (Length header) @ put_le32 (Sequence header)"

definition VUSB_HEADER_of_bytes :: "bytes \<Rightarrow> VUSB_HEADER" where
  "VUSB_HEADER_of_bytes bs =
     \<lparr>Magic = get_le32 bs, Version = get_le16 (drop 4 bs), Command = get_le16 (drop 6 bs),
      Length = get_le32 (drop 8 bs), Sequence = get_le32 (drop 12 bs)\<rparr>"

text \<open>A frame on the wire: the header's image followed by the payload bytes.\<close>

definition frame_bytes :: "VUSB_HEADER \<Rightarrow> bytes \<Rightarrow> bytes" where
  "frame_bytes header payload = VUSB_HEADER_bytes header @ payload"

subsection \<open>Receiving one frame\<close>

text \<open>
  The receive loops of the server (\<^verbatim>\<open>VusbClientThread\<close>) and of the client
  (\<^verbatim>\<open>ReceiveThread\<close>) read a frame with the same statements: \<^verbatim>\<open>recv\<close> of
  \<^verbatim>\<open>sizeof(header)\<close> bytes with \<^verbatim>\<open>MSG_WAITALL\<close>, \<^verbatim>\<open>VusbValidateHeader\<close>, and, when
  \<^verbatim>\<open>header.Length > 0\<close>, a bound check followed by \<^verbatim>\<open>recv\<close> of \<^verbatim>\<open>header.Length\<close> bytes.
  They differ in the bound (\<open>lim\<close>) and in what the loop does with each outcome.  The
  socket is the list of bytes still to come; a \<^verbatim>\<open>recv\<close> that cannot deliver the
  requested count is the short read the loops treat as failure.
\<close>

datatype recv_outcome =
    RecvFailed
  | InvalidHeader bytes
  | PayloadTooLarge
  | PayloadTruncated
  | Frame VUSB_HEADER bytes bytes

definition recv_frame :: "nat \<Rightarrow> bytes \<Rightarrow> recv_outcome" where
  "recv_frame lim s =
     (if length s < sizeof_VUSB_HEADER then RecvFailed
      else
        let header = VUSB_HEADER_of_bytes (take sizeof_VUSB_HEADER s);
            s1 = drop sizeof_VUSB_HEADER s
        in if \<not> VusbValidateHeader header then InvalidHeader s1
           else if Length header > 0 then
             (if unat (Length header) > lim then PayloadTooLarge
              else if length s1 < unat (Length header) then PayloadTruncated
              else Frame header (take (unat (Length header)) s1) (drop (unat (Length header)) s1))
           else Frame header [] s1)"

text \<open>The bound of the server: \<^verbatim>\<open>VUSB_MAX_PACKET_SIZE - sizeof(header)\<close>.\<close>

definition server_recv_frame :: "bytes \<Rightarrow> recv_outcome" where
  "server_recv_frame s = recv_frame (VUSB_MAX_PACKET_SIZE - sizeof_VUSB_HEADER) s"

text \<open>The bound of the client: \<^verbatim>\<open>VUSB_MAX_PACKET_SIZE\<close>.\<close>

definition client_recv_frame :: "bytes \<Rightarrow> recv_outcome" where
  "client_recv_frame s = recv_frame VUSB_MAX_PACKET_SIZE s"

section \<open>Kernel driver: device registry (driver/vusb\_device.c)\<close>

text \<open>
  The status codes of the Windows driver kit that the driver returns.  \<^verbatim>\<open>NT_SUCCESS\<close> holds
  of the non-negative codes, of which the driver uses \<^verbatim>\<open>STATUS_SUCCESS\<close> and
  \<^verbatim>\<open>STATUS_PENDING\<close>.
\<close>

datatype NTSTATUS =
    STATUS_SUCCESS
  | STATUS_PENDING
  | STATUS_UNSUCCESSFUL
  | STATUS_CANCELLED
  | STATUS_NOT_FOUND
  | STATUS_BUFFER_TOO_SMALL
  | STATUS_INSUFFICIENT_RESOURCES
  | STATUS_TOO_MANY_NODES
  | STATUS_INVALID_PARAMETER
  | STATUS_DEVICE_NOT_CONNECTED

definition NT_SUCCESS :: "NTSTATUS \<Rightarrow> bool" where
  "NT_SUCCESS status \<longleftrightarrow> status = STATUS_SUCCESS \<or> status = STATUS_PENDING"

datatype VUSB_DEVICE_STATE =
    VUSB_STATE_DISCONNECTED
  | VUSB_STATE_ATTACHED
  | VUSB_STATE_POWERED
  | VUSB_STATE_DEFAULT
  | VUSB_STATE_ADDRESSED
  | VUSB_STATE_CONFIGURED
  | VUSB_STATE_SUSPENDED

text \<open>
  \<^verbatim>\<open>VUSB_DEVICE_INFO\<close> is only ever copied as a block of memory by the modelled code, so it
  is kept as its packed image of 208 bytes; the one field that is read, \<^verbatim>\<open>DeviceId\<close>, is
  the little-endian word at offset 0.
\<close>

type_synonym VUSB_DEVICE_INFO = bytes

definition sizeof_VUSB_DEVICE_INFO :: nat where
  "sizeof_VUSB_DEVICE_INFO = 208"

definition info_DeviceId :: "VUSB_DEVICE_INFO \<Rightarrow> uint32_t" where
  "info_DeviceId info = get_le32 info"

record VUSB_VIRTUAL_DEVICE =
  vd_DeviceId :: uint32_t
  vd_PortNumber :: uint32_t
  vd_State :: VUSB_DEVICE_STATE
  vd_DeviceInfo :: VUSB_DEVICE_INFO
  vd_Descriptors :: "bytes option"
  vd_DescriptorLength :: uint32_t
  vd_BytesIn :: uint64_t
  vd_BytesOut :: uint64_t
  vd_UrbsCompleted :: uint32_t
  vd_UrbsError :: uint32_t

record VUSB_SETUP_PACKET =
  bmRequestType :: uint8_t
  bRequest :: uint8_t
  wValue :: uint16_t
  wIndex :: uint16_t
  wLength :: uint16_t

text \<open>
  A pending URB of the driver.  \<open>ue_Request\<close> is the handle of the original WDF request
  (\<open>None\<close> for \<^verbatim>\<open>NULL\<close>); \<open>ue_TransferBuffer\<close> is the content of the transfer buffer
  (\<open>None\<close> for \<^verbatim>\<open>NULL\<close>) and \<open>ue_TransferBufferMdl\<close> the content of the memory its MDL
  describes (\<open>None\<close> for \<^verbatim>\<open>NULL\<close>).
\<close>

record VUSB_URB_ENTRY =
  ue_UrbId :: uint32_t
  ue_SequenceNumber :: uint32_t
  ue_DeviceId :: uint32_t
  ue_Request :: "nat option"
  ue_EndpointAddress :: uint8_t
  ue_TransferType :: uint8_t
  ue_Direction :: uint8_t
  ue_TransferFlags :: uint32_t
  ue_TransferBufferLength :: uint32_t
  ue_TransferBuffer :: "bytes option"
  ue_TransferBufferMdl :: "bytes option"
  ue_SetupPacket :: VUSB_SETUP_PACKET

record VUSB_STATISTICS =
  TotalUrbsSubmitted :: uint64_t
  TotalUrbsCompleted :: uint64_t
  TotalUrbsCanceled :: uint64_t
  TotalBytesIn :: uint64_t
  TotalBytesOut :: uint64_t
  TotalErrors :: uint64_t

text \<open>
  One call of \<^verbatim>\<open>WdfRequestCompleteWithInformation\<close> on the request of a URB: the completion
  the submitter observes.  \<open>wc_TransferBuffer\<close> is the URB's transfer buffer at that moment.
\<close>

record WDF_COMPLETION =
  wc_Request :: nat
  wc_Status :: NTSTATUS
  wc_Information :: uint32_t
  wc_TransferBuffer :: "bytes option"

text \<open>
  The device context.  The array \<^verbatim>\<open>Devices[VUSB_MAX_DEVICES]\<close> is a map from slot index to
  device (\<open>None\<close> for \<^verbatim>\<open>NULL\<close>); only the indices below \<^verbatim>\<open>VUSB_MAX_DEVICES\<close> are ever
  read or written.  \<open>Completed\<close> records the completions of URB requests in the order in
  which they were made.
\<close>

record VUSB_DEVICE_CONTEXT =
  MaxDevices :: uint32_t
  DeviceCount :: uint32_t
  Devices :: "nat \<rightharpoonup> VUSB_VIRTUAL_DEVICE"
  NextUrbId :: uint32_t
  NextSequence :: uint32_t
  PendingUrbList :: "VUSB_URB_ENTRY list"
  PendingUrbCount :: uint32_t
  Statistics :: VUSB_STATISTICS
  Completed :: "WDF_COMPLETION list"

text \<open>
  The context as \<^verbatim>\<open>VusbEvtDeviceAdd\<close> leaves it: zeroed, \<^verbatim>\<open>MaxDevices\<close> set to
  \<^verbatim>\<open>VUSB_MAX_DEVICES\<close>, the pending list initialised empty.
\<close>

definition VusbEvtDeviceAdd_context :: VUSB_DEVICE_CONTEXT where
  "VusbEvtDeviceAdd_context =
     \<lparr>MaxDevices = of_nat VUSB_MAX_DEVICES, DeviceCount = 0, Devices = Map.empty,
      NextUrbId = 0, NextSequence = 0, PendingUrbList = [], PendingUrbCount = 0,
      Statistics = \<lparr>TotalUrbsSubmitted = 0, TotalUrbsCompleted = 0, TotalUrbsCanceled = 0,
                     TotalBytesIn = 0, TotalBytesOut = 0, TotalErrors = 0\<rparr>,
      Completed = []\<rparr>"

text \<open>
  The loop \<^verbatim>\<open>for (slot = 0; slot < VUSB_MAX_DEVICES; slot++)\<close> of
  \<^verbatim>\<open>VusbCreateVirtualDevice\<close>, which stops at the first slot that holds \<^verbatim>\<open>NULL\<close>.
\<close>

function find_free_slot :: "(nat \<rightharpoonup> VUSB_VIRTUAL_DEVICE) \<Rightarrow> nat \<Rightarrow> nat option" where
  "find_free_slot devs slot =
     (if slot < VUSB_MAX_DEVICES
      then (if devs slot = None then Some slot else find_free_slot devs (slot + 1))
      else None)"
  by pat_completeness auto
termination
  by (relation "measure (\<lambda>(devs, slot). VUSB_MAX_DEVICES - slot)") auto

declare find_free_slot.simps [simp del]

text \<open>
  \<^verbatim>\<open>VusbCreateVirtualDevice\<close>.  The two pool allocations can fail; their outcomes are the
  arguments \<open>alloc_vdev\<close> and \<open>alloc_desc\<close>.  The result is the returned status, the value
  left in \<^verbatim>\<open>*DeviceId\<close>, and the context.
\<close>

definition VusbCreateVirtualDevice ::
  "VUSB_DEVICE_CONTEXT \<Rightarrow> VUSB_DEVICE_INFO \<Rightarrow> bytes option \<Rightarrow> uint32_t \<Rightarrow> bool \<Rightarrow> bool \<Rightarrow>
   NTSTATUS \<times> uint32_t \<times> VUSB_DEVICE_CONTEXT" where
  "VusbCreateVirtualDevice ctx DeviceInfo Descriptors DescriptorLength alloc_vdev alloc_desc =
     (if \<not> alloc_vdev then (STATUS_INSUFFICIENT_RESOURCES, 0, ctx)
      else if DescriptorLength > 0 \<and> Descriptors \<noteq> None \<and> \<not> alloc_desc
      then (STATUS_INSUFFICIENT_RESOURCES, 0, ctx)
      else
        let copy = (DescriptorLength > 0 \<and> Descriptors \<noteq> None);
            vdev = \<lparr>vd_DeviceId = 0, vd_PortNumber = 0, vd_State = VUSB_STATE_DISCONNECTED,
                    vd_DeviceInfo = DeviceInfo,
                    vd_Descriptors =
                      (if copy then map_option (take (unat DescriptorLength)) Descriptors else None),
                    vd_DescriptorLength = (if copy then DescriptorLength else 0),
                    vd_BytesIn = 0, vd_BytesOut = 0, vd_UrbsCompleted = 0, vd_UrbsError = 0\<rparr>
        in if DeviceCount ctx \<ge> MaxDevices ctx then (STATUS_TOO_MANY_NODES, 0, ctx)
           else case find_free_slot (Devices ctx) 0 of
                  None \<Rightarrow> (STATUS_TOO_MANY_NODES, 0, ctx)
                | Some slot \<Rightarrow>
                    (STATUS_SUCCESS, of_nat slot + 1,
                     ctx\<lparr>Devices := (Devices ctx)(slot \<mapsto>
                            vdev\<lparr>vd_DeviceId := of_nat slot + 1, vd_PortNumber := of_nat slot + 1,
                                 vd_State := VUSB_STATE_ATTACHED\<rparr>),
                         DeviceCount := DeviceCount ctx + 1\<rparr>))"

definition VusbDestroyVirtualDevice ::
  "VUSB_DEVICE_CONTEXT \<Rightarrow> uint32_t \<Rightarrow> NTSTATUS \<times> VUSB_DEVICE_CONTEXT" where
  "VusbDestroyVirtualDevice ctx DeviceId =
     (if DeviceId = 0 \<or> DeviceId > of_nat VUSB_MAX_DEVICES then (STATUS_INVALID_PARAMETER, ctx)
      else
        let slot = unat (DeviceId - 1)
        in case Devices ctx slot of
             None \<Rightarrow> (STATUS_DEVICE_NOT_CONNECTED, ctx)
           | Some vdev \<Rightarrow>
               (STATUS_SUCCESS,
                ctx\<lparr>Devices := (Devices ctx)(slot := None), DeviceCount := DeviceCount ctx - 1\<rparr>))"

definition VusbFindDevice :: "VUSB_DEVICE_CONTEXT \<Rightarrow> uint32_t \<Rightarrow> VUSB_VIRTUAL_DEVICE option" where
  "VusbFindDevice ctx DeviceId =
     (if DeviceId = 0 \<or> DeviceId > of_nat VUSB_MAX_DEVICES then None
      else Devices ctx (unat (DeviceId - 1)))"

section \<open>Kernel driver: pending URBs (driver/vusb\_device.c, driver/vusb\_ioctl.c)\<close>

definition VusbQueueUrb :: "VUSB_DEVICE_CONTEXT \<Rightarrow> VUSB_URB_ENTRY \<Rightarrow> VUSB_DEVICE_CONTEXT" where
  "VusbQueueUrb ctx UrbEntry =
     ctx\<lparr>PendingUrbList := PendingUrbList ctx @ [UrbEntry],
         PendingUrbCount := PendingUrbCount ctx + 1,
         Statistics := (Statistics ctx)
           \<lparr>TotalUrbsSubmitted := TotalUrbsSubmitted (Statistics ctx) + 1\<rparr>\<rparr>"

definition VusbDequeueUrb ::
  "VUSB_DEVICE_CONTEXT \<Rightarrow> VUSB_URB_ENTRY option \<times> VUSB_DEVICE_CONTEXT" where
  "VusbDequeueUrb ctx =
     (case PendingUrbList ctx of
        [] \<Rightarrow> (None, ctx)
      | urbEntry # rest \<Rightarrow>
          (Some urbEntry,
           ctx\<lparr>PendingUrbList := rest, PendingUrbCount := PendingUrbCount ctx - 1\<rparr>))"

text \<open>
  The list walk of \<^verbatim>\<open>VusbFindUrb\<close>: the first entry whose \<^verbatim>\<open>UrbId\<close> equals the one
  looked for is unlinked and returned together with the remaining list.
\<close>

fun unlink_urb :: "uint32_t \<Rightarrow> VUSB_URB_ENTRY list \<Rightarrow> (VUSB_URB_ENTRY \<times> VUSB_URB_ENTRY list) option" where
  "unlink_urb UrbId [] = None"
| "unlink_urb UrbId (current # rest) =
     (if ue_UrbId current = UrbId then Some (current, rest)
      else case unlink_urb UrbId rest of
             None \<Rightarrow> None
           | Some (found, rest') \<Rightarrow> Some (found, current # rest'))"

definition VusbFindUrb ::
  "VUSB_DEVICE_CONTEXT \<Rightarrow> uint32_t \<Rightarrow> VUSB_URB_ENTRY option \<times> VUSB_DEVICE_CONTEXT" where
  "VusbFindUrb ctx UrbId =
     (case unlink_urb UrbId (PendingUrbList ctx) of
        None \<Rightarrow> (None, ctx)
      | Some (urbEntry, rest) \<Rightarrow>
          (Some urbEntry,
           ctx\<lparr>PendingUrbList := rest, PendingUrbCount := PendingUrbCount ctx - 1\<rparr>))"

text \<open>\<^verbatim>\<open>RtlCopyMemory(dst, src, n)\<close> on buffer contents.\<close>

definition RtlCopyMemory :: "bytes \<Rightarrow> bytes \<Rightarrow> nat \<Rightarrow> bytes" where
  "RtlCopyMemory dst src n = take n src @ drop n dst"

text \<open>
  \<^verbatim>\<open>VusbCompleteUrb\<close>: statistics of the context, statistics of the device when
  \<^verbatim>\<open>VusbFindDevice\<close> still finds it, the copy into the transfer buffer (of
  \<^verbatim>\<open>min(ActualLength, TransferBufferLength)\<close> bytes), and the completion of the original
  request with \<^verbatim>\<open>ActualLength\<close> as its information.
\<close>

definition VusbCompleteUrb ::
  "VUSB_DEVICE_CONTEXT \<Rightarrow> VUSB_URB_ENTRY \<Rightarrow> NTSTATUS \<Rightarrow> uint32_t \<Rightarrow> bytes option \<Rightarrow>
   VUSB_DEVICE_CONTEXT" where
  "VusbCompleteUrb ctx UrbEntry Status ActualLength Data =
     (let st = Statistics ctx;
          st1 = (if NT_SUCCESS Status
                 then (if ue_Direction UrbEntry = VUSB_DIR_IN
                       then st\<lparr>TotalUrbsCompleted := TotalUrbsCompleted st + 1,
                               TotalBytesIn := TotalBytesIn st + ucast ActualLength\<rparr>
                       else st\<lparr>TotalUrbsCompleted := TotalUrbsCompleted st + 1,
                               TotalBytesOut := TotalBytesOut st + ucast ActualLength\<rparr>)
                 else st\<lparr>TotalErrors := TotalErrors st + 1\<rparr>);
          devs1 = (case VusbFindDevice ctx (ue_DeviceId UrbEntry) of
                     None \<Rightarrow> Devices ctx
                   | Some vdev \<Rightarrow>
                       (Devices ctx)(unat (ue_DeviceId UrbEntry - 1) \<mapsto>
                         (if NT_SUCCESS Status
                          then (if ue_Direction UrbEntry = VUSB_DIR_IN
                                then vdev\<lparr>vd_UrbsCompleted := vd_UrbsCompleted vdev + 1,
                                          vd_BytesIn := vd_BytesIn vdev + ucast ActualLength\<rparr>
                                else vdev\<lparr>vd_UrbsCompleted := vd_UrbsCompleted vdev + 1,
                                          vd_BytesOut := vd_BytesOut vdev + ucast ActualLength\<rparr>)
                          else vdev\<lparr>vd_UrbsError := vd_UrbsError vdev + 1\<rparr>)));
          buffer1 = (case (Data, ue_TransferBuffer UrbEntry) of
                       (Some data, Some buffer) \<Rightarrow>
                         (if ActualLength > 0
                          then Some (RtlCopyMemory buffer data
                                 (unat (min ActualLength (ue_TransferBufferLength UrbEntry))))
                          else Some buffer)
                     | (_, buffer) \<Rightarrow> buffer);
          done1 = (case ue_Request UrbEntry of
                     None \<Rightarrow> Completed ctx
                   | Some request \<Rightarrow>
                       Completed ctx @
                         [\<lparr>wc_Request = request, wc_Status = Status,
                           wc_Information = ActualLength, wc_TransferBuffer = buffer1\<rparr>])
      in ctx\<lparr>Statistics := st1, Devices := devs1, Completed := done1\<rparr>)"

definition VusbCancelUrb :: "VUSB_DEVICE_CONTEXT \<Rightarrow> uint32_t \<Rightarrow> VUSB_DEVICE_CONTEXT" where
  "VusbCancelUrb ctx UrbId =
     (case VusbFindUrb ctx UrbId of
        (None, ctx1) \<Rightarrow> ctx1
      | (Some urbEntry, ctx1) \<Rightarrow>
          VusbCompleteUrb
            (ctx1\<lparr>Statistics := (Statistics ctx1)
                    \<lparr>TotalUrbsCanceled := TotalUrbsCanceled (Statistics ctx1) + 1\<rparr>\<rparr>)
            urbEntry STATUS_CANCELLED 0 None)"

text \<open>
  The input of \<^verbatim>\<open>IOCTL_VUSB_COMPLETE_URB\<close>: the structure \<^verbatim>\<open>VUSB_URB_COMPLETION\<close> and
  the bytes that follow it in the input buffer.
\<close>

record VUSB_URB_COMPLETION =
  uc_DeviceId :: uint32_t
  uc_UrbId :: uint32_t
  uc_SequenceNumber :: uint32_t
  uc_Status :: uint32_t
  uc_ActualLength :: uint32_t

definition sizeof_VUSB_URB_COMPLETION :: nat where
  "sizeof_VUSB_URB_COMPLETION = 20"

text \<open>
  \<^verbatim>\<open>VusbHandleCompleteUrb\<close>.  The framework calls that retrieve the input buffer succeed
  once the length check has passed.  The sum
  \<^verbatim>\<open>sizeof(VUSB_URB_COMPLETION) + completion->ActualLength\<close> is computed in \<^verbatim>\<open>size_t\<close>,
  which is 64 bits wide in the driver and cannot wrap.
\<close>

definition VusbHandleCompleteUrb ::
  "VUSB_DEVICE_CONTEXT \<Rightarrow> nat \<Rightarrow> VUSB_URB_COMPLETION \<Rightarrow> bytes \<Rightarrow> NTSTATUS \<times> VUSB_DEVICE_CONTEXT" where
  "VusbHandleCompleteUrb ctx InputBufferLength completion trailing =
     (if InputBufferLength < sizeof_VUSB_URB_COMPLETION then (STATUS_BUFFER_TOO_SMALL, ctx)
      else case VusbFindUrb ctx (uc_UrbId completion) of
             (None, ctx1) \<Rightarrow> (STATUS_NOT_FOUND, ctx1)
           | (Some urbEntry, ctx1) \<Rightarrow>
               let data = (if uc_ActualLength completion > 0 \<and>
                              InputBufferLength \<ge>
                                sizeof_VUSB_URB_COMPLETION + unat (uc_ActualLength completion)
                           then Some trailing else None)
               in (STATUS_SUCCESS,
                   VusbCompleteUrb ctx1 urbEntry
                     (if uc_Status completion = VUSB_STATUS_SUCCESS
                      then STATUS_SUCCESS else STATUS_UNSUCCESSFUL)
                     (uc_ActualLength completion) data))"

definition VusbHandleCancelUrb ::
  "VUSB_DEVICE_CONTEXT \<Rightarrow> nat \<Rightarrow> uint32_t \<Rightarrow> uint32_t \<Rightarrow> NTSTATUS \<times> VUSB_DEVICE_CONTEXT" where
  "VusbHandleCancelUrb ctx InputBufferLength DeviceId UrbId =
     (if InputBufferLength < 8 then (STATUS_BUFFER_TOO_SMALL, ctx)
      else (STATUS_SUCCESS, VusbCancelUrb ctx UrbId))"

definition VusbHandleUnplugDevice ::
  "VUSB_DEVICE_CONTEXT \<Rightarrow> nat \<Rightarrow> uint32_t \<Rightarrow> NTSTATUS \<times> VUSB_DEVICE_CONTEXT" where
  "VusbHandleUnplugDevice ctx InputBufferLength DeviceId =
     (if InputBufferLength < 4 then (STATUS_BUFFER_TOO_SMALL, ctx)
      else VusbDestroyVirtualDevice ctx DeviceId)"

text \<open>
  \<^verbatim>\<open>VusbHandlePluginDevice\<close>.  The input is the structure \<^verbatim>\<open>VUSB_PLUGIN_REQUEST\<close>
  (\<^verbatim>\<open>DeviceInfo\<close> and \<^verbatim>\<open>DescriptorLength\<close>, 212 bytes) followed by the descriptor bytes;
  the output is \<^verbatim>\<open>VUSB_PLUGIN_RESPONSE\<close> (\<^verbatim>\<open>Status\<close>, \<^verbatim>\<open>DeviceId\<close>, \<^verbatim>\<open>PortNumber\<close>,
  12 bytes).  The framework calls that retrieve the buffers succeed once the length
  checks have passed, so the status that \<^verbatim>\<open>WdfRequestRetrieveOutputBuffer\<close> assigns over
  the one of \<^verbatim>\<open>VusbCreateVirtualDevice\<close> is \<^verbatim>\<open>STATUS_SUCCESS\<close>.
\<close>

record VUSB_PLUGIN_RESPONSE =
  pr_Status :: uint32_t
  pr_DeviceId :: uint32_t
  pr_PortNumber :: uint32_t

definition sizeof_VUSB_PLUGIN_REQUEST :: nat where
  "sizeof_VUSB_PLUGIN_REQUEST = 212"

definition sizeof_VUSB_PLUGIN_RESPONSE :: nat where
  "sizeof_VUSB_PLUGIN_RESPONSE = 12"

definition VusbHandlePluginDevice ::
  "VUSB_DEVICE_CONTEXT \<Rightarrow> nat \<Rightarrow> nat \<Rightarrow> VUSB_DEVICE_INFO \<Rightarrow> uint32_t \<Rightarrow> bytes \<Rightarrow> bool \<Rightarrow> bool \<Rightarrow>
   NTSTATUS \<times> VUSB_PLUGIN_RESPONSE option \<times> VUSB_DEVICE_CONTEXT" where
  "VusbHandlePluginDevice ctx InputBufferLength OutputBufferLength DeviceInfo DescriptorLength
       descriptors alloc_vdev alloc_desc =
     (if InputBufferLength < sizeof_VUSB_PLUGIN_REQUEST then (STATUS_BUFFER_TOO_SMALL, None, ctx)
      else if OutputBufferLength < sizeof_VUSB_PLUGIN_RESPONSE
      then (STATUS_BUFFER_TOO_SMALL, None, ctx)
      else if InputBufferLength < sizeof_VUSB_PLUGIN_REQUEST + unat DescriptorLength
      then (STATUS_BUFFER_TOO_SMALL, None, ctx)
      else
        case VusbCreateVirtualDevice ctx DeviceInfo (Some descriptors) DescriptorLength
               alloc_vdev alloc_desc of
          (created, deviceId, ctx1) \<Rightarrow>
            let status = STATUS_SUCCESS
            in (status,
                Some \<lparr>pr_Status = (if NT_SUCCESS status then VUSB_STATUS_SUCCESS
                                     else VUSB_STATUS_ERROR),
                      pr_DeviceId = deviceId, pr_PortNumber = deviceId\<rparr>,
                ctx1))"

text \<open>
  \<^verbatim>\<open>VusbHandleGetDeviceList\<close>: the occupied slots in index order, each as
  \<^verbatim>\<open>VUSB_DEVICE_ENTRY\<close> (device id, port number, state, device information).
\<close>

definition VusbHandleGetDeviceList ::
  "VUSB_DEVICE_CONTEXT \<Rightarrow> (uint32_t \<times> uint32_t \<times> VUSB_DEVICE_STATE \<times> VUSB_DEVICE_INFO) list" where
  "VusbHandleGetDeviceList ctx =
     concat (map (\<lambda>i. case Devices ctx i of
                         None \<Rightarrow> []
                       | Some vdev \<Rightarrow>
                           [(vd_DeviceId vdev, vd_PortNumber vdev, vd_State vdev, vd_DeviceInfo vdev)])
                 [0..<VUSB_MAX_DEVICES])"

section \<open>Kernel driver: the pending URB handed to user mode (driver/vusb\_urb.c)\<close>

text \<open>The structure the driver hands to user mode for a pending URB (protocol/vusb\_ioctl.h).\<close>

record VUSB_PENDING_URB =
  pu_DeviceId :: uint32_t
  pu_UrbId :: uint32_t
  pu_SequenceNumber :: uint32_t
  pu_EndpointAddress :: uint8_t
  pu_TransferType :: uint8_t
  pu_Direction :: uint8_t
  pu_Reserved :: uint8_t
  pu_TransferFlags :: uint32_t
  pu_TransferBufferLength :: uint32_t
  pu_Interval :: uint32_t
  pu_SetupPacket :: VUSB_SETUP_PACKET

definition sizeof_VUSB_PENDING_URB :: nat where
  "sizeof_VUSB_PENDING_URB = 36"

text \<open>
  \<^verbatim>\<open>VusbUrbGetBuffer\<close>: the transfer buffer, or else the memory of the MDL, whose mapping
  succeeds.
\<close>

definition VusbUrbGetBuffer :: "VUSB_URB_ENTRY \<Rightarrow> bytes option" where
  "VusbUrbGetBuffer Entry =
     (case ue_TransferBuffer Entry of
        Some buffer \<Rightarrow> Some buffer
      | None \<Rightarrow> ue_TransferBufferMdl Entry)"

text \<open>
  \<^verbatim>\<open>VusbUrbBuildPendingResponse\<close>.  \<open>behind\<close> is what the output buffer holds behind the
  structure before the call.  The result is the status, \<^verbatim>\<open>*ActualSize\<close>, and on success
  the structure with the bytes behind it.  \<^verbatim>\<open>requiredSize\<close> is a \<^verbatim>\<open>ULONG\<close>.
\<close>

definition VusbUrbBuildPendingResponse ::
  "VUSB_URB_ENTRY \<Rightarrow> uint32_t \<Rightarrow> bytes \<Rightarrow> NTSTATUS \<times> uint32_t \<times> (VUSB_PENDING_URB \<times> bytes) option" where
  "VusbUrbBuildPendingResponse Entry BufferSize behind =
     (let out = (ue_Direction Entry = VUSB_DIR_OUT \<and> ue_TransferBufferLength Entry > 0);
          requiredSize = of_nat sizeof_VUSB_PENDING_URB +
                         (if out then ue_TransferBufferLength Entry else 0)
      in if BufferSize < requiredSize then (STATUS_BUFFER_TOO_SMALL, requiredSize, None)
         else
           (STATUS_SUCCESS, requiredSize,
            Some (\<lparr>pu_DeviceId = ue_DeviceId Entry, pu_UrbId = ue_UrbId Entry,
                   pu_SequenceNumber = ue_SequenceNumber Entry,
                   pu_EndpointAddress = ue_EndpointAddress Entry,
                   pu_TransferType = ue_TransferType Entry,
                   pu_Direction = ue_Direction Entry, pu_Reserved = 0,
                   pu_TransferFlags = ue_TransferFlags Entry,
                   pu_TransferBufferLength = ue_TransferBufferLength Entry,
                   pu_Interval = 0, pu_SetupPacket = ue_SetupPacket Entry\<rparr>,
                  (if out
                   then (case VusbUrbGetBuffer Entry of
                           Some transferData \<Rightarrow>
                             RtlCopyMemory behind transferData
                               (unat (ue_TransferBufferLength Entry))
                         | None \<Rightarrow> behind)
                   else behind))))"

section \<open>Server: URB forwarder (server/vusb\_server\_urb.c)\<close>

text \<open>The wire structure \<^verbatim>\<open>VUSB_URB_SUBMIT\<close> and its packed image of 48 bytes.\<close>

record VUSB_URB_SUBMIT =
  us_Header :: VUSB_HEADER
  us_DeviceId :: uint32_t
  us_UrbId :: uint32_t
  us_EndpointAddress :: uint8_t
  us_TransferType :: uint8_t
  us_Direction :: uint8_t
  us_Reserved :: uint8_t
  us_TransferFlags :: uint32_t
  us_TransferBufferLength :: uint32_t
  us_Interval :: uint32_t
  us_SetupPacket :: VUSB_SETUP_PACKET

definition sizeof_VUSB_URB_SUBMIT :: nat where
  "sizeof_VUSB_URB_SUBMIT = 48"

definition VUSB_SETUP_PACKET_bytes :: "VUSB_SETUP_PACKET \<Rightarrow> bytes" where
  "VUSB_SETUP_PACKET_bytes p =
     [bmRequestType p, bRequest p] @ put_le16 (wValue p) @ put_le16 (wIndex p) @
     put_le16 (wLength p)"

definition VUSB_URB_SUBMIT_bytes :: "VUSB_URB_SUBMIT \<Rightarrow> bytes" where
  "VUSB_URB_SUBMIT_bytes submit =
     VUSB_HEADER_bytes (us_Header submit) @
     put_le32 (us_DeviceId submit) @ put_le32 (us_UrbId submit) @
     [us_EndpointAddress submit, us_TransferType submit, us_Direction submit,
      us_Reserved submit] @
     put_le32 (us_TransferFlags submit) @ put_le32 (us_TransferBufferLength submit) @
     put_le32 (us_Interval submit) @ VUSB_SETUP_PACKET_bytes (us_SetupPacket submit)"

text \<open>
  The server's view of a connected client.  \<open>Sent\<close> lists the buffers handed to
  \<^verbatim>\<open>send\<close> on the client's socket, oldest first.
\<close>

record VUSB_CLIENT_DEVICE =
  cd_Active :: bool
  cd_DeviceId :: uint32_t
  cd_RemoteId :: uint32_t

record VUSB_CLIENT_CONNECTION =
  SessionId :: uint32_t
  Connected :: bool
  ClientDevices :: "VUSB_CLIENT_DEVICE list"
  Sent :: "bytes list"

text \<open>
  The server context.  \<open>DriverHandle\<close> is \<open>None\<close> for \<^verbatim>\<open>INVALID_HANDLE_VALUE\<close>
  (simulation mode) and otherwise the state of the driver behind the handle, on which
  every \<^verbatim>\<open>DeviceIoControl\<close> runs the handler of its control code.  \<open>nextId\<close> is the static
  counter of \<^verbatim>\<open>VusbServerPluginDevice\<close>.
\<close>

record VUSB_SERVER_CONTEXT =
  MaxClients :: nat
  DriverHandle :: "VUSB_DEVICE_CONTEXT option"
  Clients :: "VUSB_CLIENT_CONNECTION option list"
  nextId :: uint32_t

record SERVER_PENDING_URB =
  sp_UrbId :: uint32_t
  sp_DeviceId :: uint32_t
  sp_Client :: nat

text \<open>
  The forwarder context.  \<open>su_DriverHandleValid\<close> tells whether its driver handle differs
  from \<^verbatim>\<open>INVALID_HANDLE_VALUE\<close>; the requests the forwarder hands to
  \<^verbatim>\<open>DeviceIoControl\<close> are returned by the functions below.  \<open>sp_Client\<close> of a pending
  entry is the index of the owning client in \<open>Clients\<close>.
\<close>

record SERVER_URB_CONTEXT =
  ServerContext :: VUSB_SERVER_CONTEXT
  su_DriverHandleValid :: bool
  PendingList :: "SERVER_PENDING_URB list"
  PendingCount :: uint32_t

text \<open>
  \<^verbatim>\<open>ServerUrbFindClientForDevice\<close>: the first connected client, in slot order below
  \<^verbatim>\<open>MaxClients\<close>, one of whose first \<^verbatim>\<open>VUSB_MAX_DEVICES\<close> device entries is active with the
  given id.
\<close>

definition client_owns :: "VUSB_CLIENT_CONNECTION \<Rightarrow> uint32_t \<Rightarrow> bool" where
  "client_owns client deviceId \<longleftrightarrow>
     list_ex (\<lambda>d. cd_Active d \<and> cd_DeviceId d = deviceId)
       (take VUSB_MAX_DEVICES (ClientDevices client))"

fun find_client :: "VUSB_CLIENT_CONNECTION option list \<Rightarrow> uint32_t \<Rightarrow> nat \<Rightarrow> nat option" where
  "find_client [] deviceId i = None"
| "find_client (c # cs) deviceId i =
     (case c of
        None \<Rightarrow> find_client cs deviceId (i + 1)
      | Some client \<Rightarrow>
          if Connected client \<and> client_owns client deviceId then Some i
          else find_client cs deviceId (i + 1))"

definition ServerUrbFindClientForDevice :: "SERVER_URB_CONTEXT \<Rightarrow> uint32_t \<Rightarrow> nat option" where
  "ServerUrbFindClientForDevice ctx deviceId =
     find_client (take (MaxClients (ServerContext ctx)) (Clients (ServerContext ctx))) deviceId 0"

text \<open>
  \<^verbatim>\<open>ServerUrbForward\<close>.  \<open>data\<close> is the memory that follows the structure
  \<^verbatim>\<open>*pendingUrb\<close> in the forwarder's buffer, from which \<^verbatim>\<open>memcpy\<close> takes
  \<^verbatim>\<open>TransferBufferLength\<close> bytes.  \<open>malloc_ok\<close> and \<open>calloc_ok\<close> are the outcomes of the two
  allocations and \<open>send_result\<close> is what \<^verbatim>\<open>send\<close> returns.  The result is the return
  value, the context, the buffer handed to \<^verbatim>\<open>send\<close> with the index of the client it goes
  to, and the completion handed to the driver with \<^verbatim>\<open>IOCTL_VUSB_COMPLETE_URB\<close>.
  \<^verbatim>\<open>sendSize\<close> is a \<^verbatim>\<open>size_t\<close> and does not wrap; the header length is its cast to 32 bits.
\<close>

definition ServerUrbForward ::
  "SERVER_URB_CONTEXT \<Rightarrow> VUSB_PENDING_URB \<Rightarrow> bytes \<Rightarrow> bool \<Rightarrow> bool \<Rightarrow> int \<Rightarrow>
   int \<times> SERVER_URB_CONTEXT \<times> (nat \<times> bytes) option \<times> VUSB_URB_COMPLETION option" where
  "ServerUrbForward ctx pendingUrb data malloc_ok calloc_ok send_result =
     (case ServerUrbFindClientForDevice ctx (pu_DeviceId pendingUrb) of
        None \<Rightarrow>
          (-1, ctx, None,
           Some \<lparr>uc_DeviceId = pu_DeviceId pendingUrb, uc_UrbId = pu_UrbId pendingUrb,
                 uc_SequenceNumber = pu_SequenceNumber pendingUrb,
                 uc_Status = VUSB_STATUS_NO_DEVICE, uc_ActualLength = 0\<rparr>)
      | Some client \<Rightarrow>
          let out = (pu_Direction pendingUrb = VUSB_DIR_OUT \<and>
                     pu_TransferBufferLength pendingUrb > 0);
              sendSize = sizeof_VUSB_URB_SUBMIT +
                         (if out then unat (pu_TransferBufferLength pendingUrb) else 0)
          in if \<not> malloc_ok then (-1, ctx, None, None)
             else
               let submit =
                     \<lparr>us_Header = VusbInitHeader VUSB_CMD_SUBMIT_URB
                                    (of_nat (sendSize - sizeof_VUSB_HEADER))
                                    (pu_SequenceNumber pendingUrb),
                      us_DeviceId = pu_DeviceId pendingUrb, us_UrbId = pu_UrbId pendingUrb,
                      us_EndpointAddress = pu_EndpointAddress pendingUrb,
                      us_TransferType = pu_TransferType pendingUrb,
                      us_Direction = pu_Direction pendingUrb, us_Reserved = 0,
                      us_TransferFlags = pu_TransferFlags pendingUrb,
                      us_TransferBufferLength = pu_TransferBufferLength pendingUrb,
                      us_Interval = pu_Interval pendingUrb,
                      us_SetupPacket = pu_SetupPacket pendingUrb\<rparr>;
                   sendBuffer = VUSB_URB_SUBMIT_bytes submit @
                                (if out then take (unat (pu_TransferBufferLength pendingUrb)) data
                                 else []);
                   ctx1 = (if calloc_ok
                           then ctx\<lparr>PendingList :=
                                       \<lparr>sp_UrbId = pu_UrbId pendingUrb,
                                        sp_DeviceId = pu_DeviceId pendingUrb,
                                        sp_Client = client\<rparr> # PendingList ctx,
                                     PendingCount := PendingCount ctx + 1\<rparr>
                           else ctx)
               in ((if send_result = int sendSize then 0 else -1), ctx1,
                   Some (client, sendBuffer), None))"

text \<open>
  The list walk of \<^verbatim>\<open>ServerUrbComplete\<close>: the first entry whose \<^verbatim>\<open>UrbId\<close> equals
  \<^verbatim>\<open>urbId\<close> is unlinked.
\<close>

fun unlink_pending ::
  "uint32_t \<Rightarrow> SERVER_PENDING_URB list \<Rightarrow> (SERVER_PENDING_URB \<times> SERVER_PENDING_URB list) option" where
  "unlink_pending urbId [] = None"
| "unlink_pending urbId (cur # rest) =
     (if sp_UrbId cur = urbId then Some (cur, rest)
      else case unlink_pending urbId rest of
             None \<Rightarrow> None
           | Some (found, rest') \<Rightarrow> Some (found, cur # rest'))"

text \<open>
  \<^verbatim>\<open>ServerUrbComplete\<close>.  The result is the return value, the context, and the completion
  handed to the driver with \<^verbatim>\<open>IOCTL_VUSB_COMPLETE_URB\<close> together with the data bytes that
  follow it.
\<close>

definition ServerUrbComplete ::
  "SERVER_URB_CONTEXT \<Rightarrow> uint32_t \<Rightarrow> uint32_t \<Rightarrow> uint32_t \<Rightarrow> bytes option \<Rightarrow> bool \<Rightarrow>
   int \<times> SERVER_URB_CONTEXT \<times> (VUSB_URB_COMPLETION \<times> bytes) option" where
  "ServerUrbComplete ctx urbId status actualLength data malloc_ok =
     (case unlink_pending urbId (PendingList ctx) of
        None \<Rightarrow> (-1, ctx, None)
      | Some (cur, rest) \<Rightarrow>
          (0, ctx\<lparr>PendingList := rest, PendingCount := PendingCount ctx - 1\<rparr>,
           (if su_DriverHandleValid ctx \<and> malloc_ok
            then Some (\<lparr>uc_DeviceId = sp_DeviceId cur, uc_UrbId = urbId,
                        uc_SequenceNumber = 0, uc_Status = status,
                        uc_ActualLength = actualLength\<rparr>,
                       (case data of
                          Some d \<Rightarrow> (if actualLength > 0 then take (unat actualLength) d else [])
                        | None \<Rightarrow> []))
            else None)))"

section \<open>Server: message handlers (server/vusb\_server.c)\<close>

text \<open>
  What the environment decides during one run: whether \<^verbatim>\<open>malloc\<close> succeeds, whether the
  driver's two pool allocations succeed, what \<^verbatim>\<open>send\<close> returns where its result is
  inspected, and the bytes found in memory that the program has not initialised
  (\<open>uninit n\<close> is a block of \<open>n\<close> such bytes).
\<close>

record environment =
  malloc_ok :: bool
  pool_vdev_ok :: bool
  pool_desc_ok :: bool
  send_result :: int
  uninit :: "nat \<Rightarrow> bytes"

definition bytes_of_string :: "string \<Rightarrow> bytes" where
  "bytes_of_string str = map (\<lambda>c. of_nat (of_char c)) str"

definition send_frame :: "VUSB_CLIENT_CONNECTION \<Rightarrow> bytes \<Rightarrow> VUSB_CLIENT_CONNECTION" where
  "send_frame client buffer = client\<lparr>Sent := Sent client @ [buffer]\<rparr>"

definition VusbServerSendPong :: "VUSB_CLIENT_CONNECTION \<Rightarrow> uint32_t \<Rightarrow> VUSB_CLIENT_CONNECTION" where
  "VusbServerSendPong client sequence =
     send_frame client (frame_bytes (VusbInitHeader VUSB_CMD_PONG 0 sequence) [])"

text \<open>
  \<^verbatim>\<open>VusbServerSendError\<close>: \<^verbatim>\<open>VUSB_ERROR\<close> is 284 bytes; \<^verbatim>\<open>strncpy_s\<close> writes the message
  and its terminator into the 256 bytes of \<^verbatim>\<open>ErrorMessage\<close>, whose remaining bytes are
  not initialised.
\<close>

definition VusbServerSendError ::
  "environment \<Rightarrow> VUSB_CLIENT_CONNECTION \<Rightarrow> uint32_t \<Rightarrow> uint32_t \<Rightarrow> string \<Rightarrow> VUSB_CLIENT_CONNECTION" where
  "VusbServerSendError env client sequence errorCode message =
     (let text = take 255 (bytes_of_string message)
      in send_frame client
           (frame_bytes (VusbInitHeader VUSB_CMD_ERROR (of_nat (284 - sizeof_VUSB_HEADER)) sequence)
              (put_le32 errorCode @ put_le32 0 @ put_le32 sequence @
               text @ [0] @ take (255 - length text) (uninit env (255 - length text)))))"

definition VusbServerHandleConnect ::
  "VUSB_SERVER_CONTEXT \<Rightarrow> VUSB_CLIENT_CONNECTION \<Rightarrow> VUSB_HEADER \<Rightarrow> bytes \<Rightarrow> VUSB_CLIENT_CONNECTION" where
  "VusbServerHandleConnect ctx client header payload =
     send_frame client
       (frame_bytes (VusbInitHeader VUSB_CMD_CONNECT (of_nat (32 - sizeof_VUSB_HEADER))
                       (Sequence header))
          (put_le32 VUSB_STATUS_SUCCESS @ put_le32 0x00010000 @ put_le32 0 @
           put_le32 (SessionId client)))"

text \<open>
  \<^verbatim>\<open>VusbServerPluginDevice\<close>: in simulation mode the static counter supplies the id;
  otherwise the request goes to the driver with \<^verbatim>\<open>IOCTL_VUSB_PLUGIN_DEVICE\<close>, and
  \<^verbatim>\<open>DeviceIoControl\<close> reports success exactly when the handler's status is a success.
\<close>

definition VusbServerPluginDevice ::
  "environment \<Rightarrow> VUSB_SERVER_CONTEXT \<Rightarrow> VUSB_DEVICE_INFO \<Rightarrow> bytes \<Rightarrow> uint32_t \<Rightarrow>
   int \<times> uint32_t \<times> VUSB_SERVER_CONTEXT" where
  "VusbServerPluginDevice env ctx deviceInfo descriptors descriptorLength =
     (case DriverHandle ctx of
        None \<Rightarrow> (0, nextId ctx, ctx\<lparr>nextId := nextId ctx + 1\<rparr>)
      | Some drv \<Rightarrow>
          if \<not> malloc_ok env then (-1, 0, ctx)
          else
            case VusbHandlePluginDevice drv
                   (sizeof_VUSB_PLUGIN_REQUEST + unat descriptorLength) sizeof_VUSB_PLUGIN_RESPONSE
                   deviceInfo descriptorLength
                   (if descriptorLength > 0 then take (unat descriptorLength) descriptors else [])
                   (pool_vdev_ok env) (pool_desc_ok env) of
              (status, response, drv1) \<Rightarrow>
                (case response of
                   Some r \<Rightarrow>
                     if NT_SUCCESS status \<and> pr_Status r = VUSB_STATUS_SUCCESS
                     then (0, pr_DeviceId r, ctx\<lparr>DriverHandle := Some drv1\<rparr>)
                     else (-1, 0, ctx\<lparr>DriverHandle := Some drv1\<rparr>)
                 | None \<Rightarrow> (-1, 0, ctx\<lparr>DriverHandle := Some drv1\<rparr>)))"

definition VusbServerUnplugDevice :: "VUSB_SERVER_CONTEXT \<Rightarrow> uint32_t \<Rightarrow> VUSB_SERVER_CONTEXT" where
  "VusbServerUnplugDevice ctx deviceId =
     (case DriverHandle ctx of
        None \<Rightarrow> ctx
      | Some drv \<Rightarrow> ctx\<lparr>DriverHandle := Some (snd (VusbHandleUnplugDevice drv 4 deviceId))\<rparr>)"

text \<open>The loop that records a new device in the first inactive entry of the client.\<close>

fun track_device :: "VUSB_CLIENT_DEVICE list \<Rightarrow> uint32_t \<Rightarrow> uint32_t \<Rightarrow> VUSB_CLIENT_DEVICE list" where
  "track_device [] deviceId remoteId = []"
| "track_device (d # ds) deviceId remoteId =
     (if \<not> cd_Active d
      then \<lparr>cd_Active = True, cd_DeviceId = deviceId, cd_RemoteId = remoteId\<rparr> # ds
      else d # track_device ds deviceId remoteId)"

text \<open>The loop that deactivates the first active entry with the given device id.\<close>

fun untrack_device :: "VUSB_CLIENT_DEVICE list \<Rightarrow> uint32_t \<Rightarrow> VUSB_CLIENT_DEVICE list" where
  "untrack_device [] deviceId = []"
| "untrack_device (d # ds) deviceId =
     (if cd_Active d \<and> cd_DeviceId d = deviceId then d\<lparr>cd_Active := False\<rparr> # ds
      else d # untrack_device ds deviceId)"

text \<open>
  The wire structure \<^verbatim>\<open>VUSB_URB_COMPLETE\<close> (36 bytes, header included) and the reading of
  it through a pointer: \<open>VUSB_URB_COMPLETE_of_bytes m\<close> is \<^verbatim>\<open>*(VUSB_URB_COMPLETE*)m\<close> for
  the memory \<open>m\<close>.
\<close>

record VUSB_URB_COMPLETE =
  cm_Header :: VUSB_HEADER
  cm_DeviceId :: uint32_t
  cm_UrbId :: uint32_t
  cm_Status :: uint32_t
  cm_ActualLength :: uint32_t
  cm_ErrorCount :: uint32_t

definition sizeof_VUSB_URB_COMPLETE :: nat where
  "sizeof_VUSB_URB_COMPLETE = 36"

definition VUSB_URB_COMPLETE_of_bytes :: "bytes \<Rightarrow> VUSB_URB_COMPLETE" where
  "VUSB_URB_COMPLETE_of_bytes m =
     \<lparr>cm_Header = VUSB_HEADER_of_bytes m,
      cm_DeviceId = get_le32 (drop 16 m), cm_UrbId = get_le32 (drop 20 m),
      cm_Status = get_le32 (drop 24 m), cm_ActualLength = get_le32 (drop 28 m),
      cm_ErrorCount = get_le32 (drop 32 m)\<rparr>"

text \<open>
  In the handlers \<open>payload\<close> is the memory of the receive buffer, whose first
  \<open>payloadLength\<close> bytes are the payload received for the frame; what follows is what
  earlier frames left there.
\<close>

definition VusbServerHandleDeviceAttach ::
  "environment \<Rightarrow> VUSB_SERVER_CONTEXT \<Rightarrow> VUSB_CLIENT_CONNECTION \<Rightarrow> VUSB_HEADER \<Rightarrow> bytes \<Rightarrow> nat \<Rightarrow>
   VUSB_SERVER_CONTEXT \<times> VUSB_CLIENT_CONNECTION" where
  "VusbServerHandleDeviceAttach env ctx client header payload payloadLength =
     (if payloadLength < sizeof_VUSB_DEVICE_INFO + 4
      then (ctx, VusbServerSendError env client (Sequence header) VUSB_STATUS_INVALID_PARAM
                   ''Invalid attach request'')
      else
        let deviceInfo = take sizeof_VUSB_DEVICE_INFO payload;
            descriptorLength = get_le32 (drop sizeof_VUSB_DEVICE_INFO payload);
            descriptors = drop (sizeof_VUSB_DEVICE_INFO + 4) payload
        in case VusbServerPluginDevice env ctx deviceInfo descriptors descriptorLength of
             (result, deviceId, ctx1) \<Rightarrow>
               let client1 =
                     (if result = 0 \<and> deviceId > 0
                      then client\<lparr>ClientDevices :=
                             track_device (take VUSB_MAX_DEVICES (ClientDevices client))
                               deviceId (info_DeviceId deviceInfo) @
                             drop VUSB_MAX_DEVICES (ClientDevices client)\<rparr>
                      else client)
               in (ctx1,
                   send_frame client1
                     (frame_bytes (VusbInitHeader VUSB_CMD_DEVICE_ATTACH
                                     (of_nat (24 - sizeof_VUSB_HEADER)) (Sequence header))
                        (put_le32 (if result = 0 then VUSB_STATUS_SUCCESS else VUSB_STATUS_ERROR) @
                         put_le32 deviceId))))"

definition VusbServerHandleDeviceDetach ::
  "environment \<Rightarrow> VUSB_SERVER_CONTEXT \<Rightarrow> VUSB_CLIENT_CONNECTION \<Rightarrow> VUSB_HEADER \<Rightarrow> bytes \<Rightarrow> nat \<Rightarrow>
   VUSB_SERVER_CONTEXT \<times> VUSB_CLIENT_CONNECTION" where
  "VusbServerHandleDeviceDetach env ctx client header payload payloadLength =
     (if payloadLength < 4
      then (ctx, VusbServerSendError env client (Sequence header) VUSB_STATUS_INVALID_PARAM
                   ''Invalid detach request'')
      else
        let deviceId = get_le32 payload;
            ctx1 = VusbServerUnplugDevice ctx deviceId;
            client1 = client\<lparr>ClientDevices :=
                        untrack_device (take VUSB_MAX_DEVICES (ClientDevices client)) deviceId @
                        drop VUSB_MAX_DEVICES (ClientDevices client)\<rparr>
        in (ctx1,
            send_frame client1
              (frame_bytes (VusbInitHeader VUSB_CMD_DEVICE_DETACH 0 (Sequence header)) [])))"

text \<open>
  \<^verbatim>\<open>VusbServerHandleUrbComplete\<close> reads the completion through
  \<^verbatim>\<open>(VUSB_URB_COMPLETE*)payload\<close> and takes the data from \<^verbatim>\<open>urbComplete + 1\<close>, that is
  from offset 36 of the buffer.  With an open driver handle the completion goes to the
  driver with \<^verbatim>\<open>IOCTL_VUSB_COMPLETE_URB\<close>, in an input buffer of
  \<^verbatim>\<open>sizeof(completion) + ActualLength\<close> bytes.
\<close>

definition VusbServerHandleUrbComplete ::
  "environment \<Rightarrow> VUSB_SERVER_CONTEXT \<Rightarrow> VUSB_CLIENT_CONNECTION \<Rightarrow> VUSB_HEADER \<Rightarrow> bytes \<Rightarrow> nat \<Rightarrow>
   VUSB_SERVER_CONTEXT" where
  "VusbServerHandleUrbComplete env ctx client header payload payloadLength =
     (if payloadLength < sizeof_VUSB_URB_COMPLETE - sizeof_VUSB_HEADER then ctx
      else
        let urbComplete = VUSB_URB_COMPLETE_of_bytes payload
        in case DriverHandle ctx of
             None \<Rightarrow> ctx
           | Some drv \<Rightarrow>
               let completion =
                     \<lparr>uc_DeviceId = cm_DeviceId urbComplete, uc_UrbId = cm_UrbId urbComplete,
                      uc_SequenceNumber = Sequence header, uc_Status = cm_Status urbComplete,
                      uc_ActualLength = cm_ActualLength urbComplete\<rparr>;
                   inputSize = sizeof_VUSB_URB_COMPLETION + unat (cm_ActualLength urbComplete)
               in if \<not> malloc_ok env then ctx
                  else ctx\<lparr>DriverHandle :=
                         Some (snd (VusbHandleCompleteUrb drv inputSize completion
                                      (if cm_ActualLength urbComplete > 0
                                       then take (unat (cm_ActualLength urbComplete))
                                              (drop sizeof_VUSB_URB_COMPLETE payload)
                                       else [])))\<rparr>)"

definition VusbServerHandleDeviceList ::
  "VUSB_SERVER_CONTEXT \<Rightarrow> VUSB_CLIENT_CONNECTION \<Rightarrow> VUSB_HEADER \<Rightarrow> VUSB_CLIENT_CONNECTION" where
  "VusbServerHandleDeviceList ctx client header =
     (let devices = (case DriverHandle ctx of
                       None \<Rightarrow> []
                     | Some drv \<Rightarrow> VusbHandleGetDeviceList drv);
          responseSize = sizeof_VUSB_HEADER + 4 * 2 + length devices * sizeof_VUSB_DEVICE_INFO;
          client1 = send_frame client
                      (frame_bytes (VusbInitHeader VUSB_CMD_DEVICE_LIST
                                      (of_nat (responseSize - sizeof_VUSB_HEADER)) (Sequence header))
                         (put_le32 VUSB_STATUS_SUCCESS @ put_le32 (of_nat (length devices))))
      in fold (\<lambda>(deviceId, port, state, info) c. send_frame c info) devices client1)"

definition VusbServerProcessMessage ::
  "environment \<Rightarrow> VUSB_SERVER_CONTEXT \<Rightarrow> VUSB_CLIENT_CONNECTION \<Rightarrow> VUSB_HEADER \<Rightarrow> bytes \<Rightarrow> nat \<Rightarrow>
   VUSB_SERVER_CONTEXT \<times> VUSB_CLIENT_CONNECTION" where
  "VusbServerProcessMessage env ctx client header payload payloadLength =
     (if Command header = VUSB_CMD_CONNECT
      then (ctx, VusbServerHandleConnect ctx client header payload)
      else if Command header = VUSB_CMD_DISCONNECT
      then (ctx, client\<lparr>Connected := False\<rparr>)
      else if Command header = VUSB_CMD_PING
      then (ctx, VusbServerSendPong client (Sequence header))
      else if Command header = VUSB_CMD_DEVICE_ATTACH
      then VusbServerHandleDeviceAttach env ctx client header payload payloadLength
      else if Command header = VUSB_CMD_DEVICE_DETACH
      then VusbServerHandleDeviceDetach env ctx client header payload payloadLength
      else if Command header = VUSB_CMD_URB_COMPLETE
      then (VusbServerHandleUrbComplete env ctx client header payload payloadLength, client)
      else if Command header = VUSB_CMD_DEVICE_LIST
      then (ctx, VusbServerHandleDeviceList ctx client header)
      else (ctx, VusbServerSendError env client (Sequence header) VUSB_STATUS_NOT_SUPPORTED
                   ''Unknown command''))"

text \<open>\<^verbatim>\<open>recv\<close> of a payload into the receive buffer overwrites the buffer's first bytes.\<close>

definition recv_into :: "bytes \<Rightarrow> bytes \<Rightarrow> bytes" where
  "recv_into buffer received = received @ drop (length received) buffer"

text \<open>
  The receive loop of \<^verbatim>\<open>VusbClientThread\<close>, run on the bytes \<open>s\<close> the socket will
  deliver, with the receive buffer \<open>buffer\<close>, while the server keeps running.  Besides the
  two contexts it returns the frames it dispatched to \<^verbatim>\<open>VusbServerProcessMessage\<close>, in
  order.  Every failure of the receive step leaves the loop.
\<close>

function VusbClientThread_loop ::
  "environment \<Rightarrow> VUSB_SERVER_CONTEXT \<Rightarrow> VUSB_CLIENT_CONNECTION \<Rightarrow> bytes \<Rightarrow> bytes \<Rightarrow>
   VUSB_SERVER_CONTEXT \<times> VUSB_CLIENT_CONNECTION \<times> (VUSB_HEADER \<times> bytes) list" where
  "VusbClientThread_loop env ctx client buffer s =
     (if \<not> Connected client then (ctx, client, [])
      else
        case server_recv_frame s of
          Frame header received s1 \<Rightarrow>
            (case VusbServerProcessMessage env ctx client header (recv_into buffer received)
                    (unat (Length header)) of
               (ctx1, client1) \<Rightarrow>
                 (case VusbClientThread_loop env ctx1 client1 (recv_into buffer received) s1 of
                    (ctx2, client2, dispatched) \<Rightarrow>
                      (ctx2, client2, (header, received) # dispatched)))
        | _ \<Rightarrow> (ctx, client, []))"
  by pat_completeness auto
termination
  apply (relation "measure (\<lambda>(env, ctx, client, buffer, s). length s)")
   apply simp
  apply (auto simp add: server_recv_frame_def recv_frame_def Let_def sizeof_VUSB_HEADER_def
      split: if_splits)
  done

declare VusbClientThread_loop.simps [simp del]

text \<open>
  \<^verbatim>\<open>VusbClientThread\<close>: the buffer of \<^verbatim>\<open>VUSB_MAX_PACKET_SIZE\<close> bytes comes from
  \<^verbatim>\<open>malloc\<close>; without it the loop is skipped.  After the loop the client is marked
  disconnected.
\<close>

definition VusbClientThread ::
  "environment \<Rightarrow> VUSB_SERVER_CONTEXT \<Rightarrow> VUSB_CLIENT_CONNECTION \<Rightarrow> bytes \<Rightarrow>
   VUSB_SERVER_CONTEXT \<times> VUSB_CLIENT_CONNECTION \<times> (VUSB_HEADER \<times> bytes) list" where
  "VusbClientThread env ctx client s =
     (if \<not> malloc_ok env then (ctx, client\<lparr>Connected := False\<rparr>, [])
      else
        case VusbClientThread_loop env ctx client
               (take VUSB_MAX_PACKET_SIZE (uninit env VUSB_MAX_PACKET_SIZE)) s of
          (ctx1, client1, dispatched) \<Rightarrow> (ctx1, client1\<lparr>Connected := False\<rparr>, dispatched))"

section \<open>Client: URB handling and receive loop (client/vusb\_client\_enhanced.c, client/vusb\_client\_urb.c)\<close>

fun get_u8 :: "bytes \<Rightarrow> uint8_t" where
  "get_u8 (b # _) = b"
| "get_u8 [] = 0"

text \<open>\<open>VUSB_URB_SUBMIT_of_bytes m\<close> is \<^verbatim>\<open>*(VUSB_URB_SUBMIT*)m\<close> for the memory \<open>m\<close>.\<close>

definition VUSB_URB_SUBMIT_of_bytes :: "bytes \<Rightarrow> VUSB_URB_SUBMIT" where
  "VUSB_URB_SUBMIT_of_bytes m =
     \<lparr>us_Header = VUSB_HEADER_of_bytes m,
      us_DeviceId = get_le32 (drop 16 m), us_UrbId = get_le32 (drop 20 m),
      us_EndpointAddress = get_u8 (drop 24 m), us_TransferType = get_u8 (drop 25 m),
      us_Direction = get_u8 (drop 26 m), us_Reserved = get_u8 (drop 27 m),
      us_TransferFlags = get_le32 (drop 28 m), us_TransferBufferLength = get_le32 (drop 32 m),
      us_Interval = get_le32 (drop 36 m),
      us_SetupPacket =
        \<lparr>bmRequestType = get_u8 (drop 40 m), bRequest = get_u8 (drop 41 m),
         wValue = get_le16 (drop 42 m), wIndex = get_le16 (drop 44 m),
         wLength = get_le16 (drop 46 m)\<rparr>\<rparr>"

text \<open>
  The capture layer (client/vusb\_capture.c) talks to the real device through WinUSB.  Of
  a captured device the URB handler uses the local id and the flags \<^verbatim>\<open>Active\<close> and
  \<^verbatim>\<open>Opened\<close>.  What the operating system and the device answer is the \<open>backend\<close>:
  whether opening a device succeeds, and for a transfer (on a device, for a request, with
  the data pointer and length passed) the return value, the transferred length and the
  content of the data buffer afterwards.
\<close>

record USB_CAPTURED_DEVICE =
  cap_LocalId :: uint32_t
  cap_Active :: bool
  cap_Opened :: bool

record backend =
  open_ok :: "USB_CAPTURED_DEVICE \<Rightarrow> bool"
  transfer :: "USB_CAPTURED_DEVICE \<Rightarrow> VUSB_URB_SUBMIT \<Rightarrow> bytes option \<Rightarrow> uint32_t \<Rightarrow>
               int \<times> uint32_t \<times> bytes option"

definition MAX_USB_DEVICES :: nat where
  "MAX_USB_DEVICES = 32"

text \<open>
  The client context: \<^verbatim>\<open>Base.Connected\<close>, \<^verbatim>\<open>Base.Sequence\<close>, the devices of the capture
  context, and the buffers handed to \<^verbatim>\<open>send\<close> on the socket, oldest first.
\<close>

record VUSB_CLIENT_CONTEXT_EX =
  cl_Connected :: bool
  cl_Sequence :: uint32_t
  CaptureDevices :: "USB_CAPTURED_DEVICE list"
  cl_Sent :: "bytes list"

fun find_captured :: "USB_CAPTURED_DEVICE list \<Rightarrow> uint32_t \<Rightarrow> nat \<Rightarrow> nat option" where
  "find_captured [] localId i = None"
| "find_captured (d # ds) localId i =
     (if cap_Active d \<and> cap_LocalId d = localId then Some i
      else find_captured ds localId (i + 1))"

definition UsbCaptureFindDevice :: "VUSB_CLIENT_CONTEXT_EX \<Rightarrow> uint32_t \<Rightarrow> nat option" where
  "UsbCaptureFindDevice ctx localId =
     find_captured (take MAX_USB_DEVICES (CaptureDevices ctx)) localId 0"

text \<open>
  \<^verbatim>\<open>SendUrbCompletion\<close>: the frame is built in a fresh buffer of
  \<^verbatim>\<open>sizeof(VUSB_URB_COMPLETE) + actualLength\<close> bytes, with \<^verbatim>\<open>++ctx->Base.Sequence\<close> as its
  sequence number; the data are copied when there are any, otherwise the bytes behind the
  structure stay as \<^verbatim>\<open>malloc\<close> left them.
\<close>

definition SendUrbCompletion ::
  "environment \<Rightarrow> VUSB_CLIENT_CONTEXT_EX \<Rightarrow> uint32_t \<Rightarrow> uint32_t \<Rightarrow> uint32_t \<Rightarrow> uint32_t \<Rightarrow>
   bytes option \<Rightarrow> int \<times> VUSB_CLIENT_CONTEXT_EX" where
  "SendUrbCompletion env ctx deviceId urbId status actualLength data =
     (let totalSize = sizeof_VUSB_URB_COMPLETE + unat actualLength
      in if \<not> malloc_ok env then (-1, ctx)
         else
           let sequence = cl_Sequence ctx + 1;
               buffer =
                 frame_bytes (VusbInitHeader VUSB_CMD_URB_COMPLETE
                                (of_nat (totalSize - sizeof_VUSB_HEADER)) sequence)
                   (put_le32 deviceId @ put_le32 urbId @ put_le32 status @
                    put_le32 actualLength @ put_le32 0 @
                    (case data of
                       Some d \<Rightarrow>
                         (if actualLength > 0 then take (unat actualLength) d
                          else take (unat actualLength) (uninit env (unat actualLength)))
                     | None \<Rightarrow> take (unat actualLength) (uninit env (unat actualLength))))
           in ((if send_result env = int totalSize then 0 else -1),
               ctx\<lparr>cl_Sequence := sequence, cl_Sent := cl_Sent ctx @ [buffer]\<rparr>))"

text \<open>
  \<^verbatim>\<open>ClientUrbProcess\<close>, with \<^verbatim>\<open>ctx->SendCompletion\<close> set to \<^verbatim>\<open>SendUrbCompletion\<close> as
  \<^verbatim>\<open>main\<close> sets it.  Every path that finds the context and the request ends in one call
  of \<^verbatim>\<open>SendUrbCompletion\<close>.
\<close>

definition ClientUrbProcess ::
  "environment \<Rightarrow> backend \<Rightarrow> VUSB_CLIENT_CONTEXT_EX \<Rightarrow> VUSB_URB_SUBMIT \<Rightarrow> bytes option \<Rightarrow> uint32_t \<Rightarrow>
   int \<times> VUSB_CLIENT_CONTEXT_EX" where
  "ClientUrbProcess env be ctx urbSubmit outData outDataLength =
     (case UsbCaptureFindDevice ctx (us_DeviceId urbSubmit) of
        None \<Rightarrow>
          (-1, snd (SendUrbCompletion env ctx (us_DeviceId urbSubmit) (us_UrbId urbSubmit)
                      VUSB_STATUS_NO_DEVICE 0 None))
      | Some i \<Rightarrow>
          let device = CaptureDevices ctx ! i
          in if \<not> cap_Opened device \<and> \<not> open_ok be device
             then (-1, snd (SendUrbCompletion env ctx (us_DeviceId urbSubmit) (us_UrbId urbSubmit)
                              VUSB_STATUS_ERROR 0 None))
             else
               let device1 = device\<lparr>cap_Opened := True\<rparr>;
                   ctx1 = ctx\<lparr>CaptureDevices := (CaptureDevices ctx)[i := device1]\<rparr>;
                   len = us_TransferBufferLength urbSubmit;
                   is_in = (us_Direction urbSubmit = VUSB_DIR_IN)
               in if is_in \<and> len > 0 \<and> \<not> malloc_ok env
                  then (-1, snd (SendUrbCompletion env ctx1 (us_DeviceId urbSubmit)
                                   (us_UrbId urbSubmit) VUSB_STATUS_NO_MEMORY 0 None))
                  else
                    let responseData =
                          (if is_in \<and> len > 0 then Some (take (unat len) (uninit env (unat len)))
                           else None);
                        outcome =
                          (if us_TransferType urbSubmit = VUSB_TRANSFER_CONTROL
                           then
                             (if is_in
                              then (case transfer be device1 urbSubmit responseData len of
                                      (result, actualLength, buf) \<Rightarrow>
                                        (result, (if result = 0 then actualLength else 0), buf))
                              else if outData \<noteq> None \<and> outDataLength > 0
                              then (case transfer be device1 urbSubmit outData outDataLength of
                                      (result, actualLength, buf) \<Rightarrow> (result, 0, responseData))
                              else (case transfer be device1 urbSubmit None 0 of
                                      (result, actualLength, buf) \<Rightarrow> (result, 0, responseData)))
                           else if us_TransferType urbSubmit = VUSB_TRANSFER_BULK \<or>
                                   us_TransferType urbSubmit = VUSB_TRANSFER_INTERRUPT
                           then
                             (if is_in
                              then (case transfer be device1 urbSubmit responseData len of
                                      (result, actualLength, buf) \<Rightarrow> (result, actualLength, buf))
                              else (case transfer be device1 urbSubmit outData outDataLength of
                                      (result, actualLength, buf) \<Rightarrow> (result, 0, responseData)))
                           else (-1, 0, responseData))
                    in case outcome of
                         (result, responseDataLength, responseData1) \<Rightarrow>
                           (result,
                            snd (SendUrbCompletion env ctx1 (us_DeviceId urbSubmit)
                                   (us_UrbId urbSubmit)
                                   (if result = 0 then VUSB_STATUS_SUCCESS else VUSB_STATUS_ERROR)
                                   responseDataLength responseData1)))"

text \<open>
  \<^verbatim>\<open>ProcessServerMessage\<close>.  The request is read through \<^verbatim>\<open>(VUSB_URB_SUBMIT*)payload\<close>
  and the OUT data are taken from offset \<^verbatim>\<open>sizeof(VUSB_URB_SUBMIT) - sizeof(VUSB_HEADER)\<close>
  of the buffer.  \<^verbatim>\<open>ClientUrbCancel\<close> and the handling of \<^verbatim>\<open>VUSB_CMD_ERROR\<close> only print.
\<close>

definition ProcessServerMessage ::
  "environment \<Rightarrow> backend \<Rightarrow> VUSB_CLIENT_CONTEXT_EX \<Rightarrow> VUSB_HEADER \<Rightarrow> bytes \<Rightarrow> nat \<Rightarrow>
   VUSB_CLIENT_CONTEXT_EX" where
  "ProcessServerMessage env be ctx header payload payloadLength =
     (if Command header = VUSB_CMD_PING
      then ctx\<lparr>cl_Sent := cl_Sent ctx @
                 [frame_bytes (VusbInitHeader VUSB_CMD_PONG 0 (Sequence header)) []]\<rparr>
      else if Command header = VUSB_CMD_SUBMIT_URB
      then
        (if payloadLength \<ge> sizeof_VUSB_URB_SUBMIT - sizeof_VUSB_HEADER
         then
           let urbSubmit = VUSB_URB_SUBMIT_of_bytes payload
           in if us_Direction urbSubmit = VUSB_DIR_OUT \<and> us_TransferBufferLength urbSubmit > 0
              then snd (ClientUrbProcess env be ctx urbSubmit
                          (Some (drop (sizeof_VUSB_URB_SUBMIT - sizeof_VUSB_HEADER) payload))
                          (us_TransferBufferLength urbSubmit))
              else snd (ClientUrbProcess env be ctx urbSubmit None 0)
         else ctx)
      else ctx)"

text \<open>
  The receive loop of \<^verbatim>\<open>ReceiveThread\<close>, run on the bytes \<open>s\<close> the socket will deliver
  while the client keeps running.  Besides the context it returns the frames it dispatched
  to \<^verbatim>\<open>ProcessServerMessage\<close>.  After a header that fails \<^verbatim>\<open>VusbValidateHeader\<close> the loop
  executes \<^verbatim>\<open>continue\<close>; the other failures of the receive step leave it.
\<close>

function ReceiveThread_loop ::
  "environment \<Rightarrow> backend \<Rightarrow> VUSB_CLIENT_CONTEXT_EX \<Rightarrow> bytes \<Rightarrow> bytes \<Rightarrow>
   VUSB_CLIENT_CONTEXT_EX \<times> (VUSB_HEADER \<times> bytes) list" where
  "ReceiveThread_loop env be ctx payload s =
     (if \<not> cl_Connected ctx then (ctx, [])
      else
        case client_recv_frame s of
          RecvFailed \<Rightarrow> (ctx, [])
        | InvalidHeader s1 \<Rightarrow> ReceiveThread_loop env be ctx payload s1
        | PayloadTooLarge \<Rightarrow> (ctx, [])
        | PayloadTruncated \<Rightarrow> (ctx, [])
        | Frame header received s1 \<Rightarrow>
            (case ReceiveThread_loop env be
                    (ProcessServerMessage env be ctx header (recv_into payload received)
                       (unat (Length header)))
                    (recv_into payload received) s1 of
               (ctx2, dispatched) \<Rightarrow> (ctx2, (header, received) # dispatched)))"
  by pat_completeness auto
termination
  apply (relation "measure (\<lambda>(env, be, ctx, payload, s). length s)")
    apply simp
   apply (auto simp add: client_recv_frame_def recv_frame_def Let_def sizeof_VUSB_HEADER_def
      split: if_splits)
  done

declare ReceiveThread_loop.simps [simp del]

definition ReceiveThread ::
  "environment \<Rightarrow> backend \<Rightarrow> VUSB_CLIENT_CONTEXT_EX \<Rightarrow> bytes \<Rightarrow>
   VUSB_CLIENT_CONTEXT_EX \<times> (VUSB_HEADER \<times> bytes) list" where
  "ReceiveThread env be ctx s =
     (if \<not> malloc_ok env then (ctx, [])
      else
        case ReceiveThread_loop env be ctx
               (take VUSB_MAX_PACKET_SIZE (uninit env VUSB_MAX_PACKET_SIZE)) s of
          (ctx1, dispatched) \<Rightarrow> (ctx1\<lparr>cl_Connected := False\<rparr>, dispatched))"

section \<open>Invariants of the device registry\<close>

text \<open>
  A slot is well formed when it is empty or holds a device whose \<^verbatim>\<open>DeviceId\<close> and
  \<^verbatim>\<open>PortNumber\<close> are the slot index plus one.  The counter \<^verbatim>\<open>DeviceCount\<close> is
  consistent when it equals the number of occupied slots and \<^verbatim>\<open>MaxDevices\<close> is
  \<^verbatim>\<open>VUSB_MAX_DEVICES\<close>.
\<close>

definition slot_ok :: "nat \<Rightarrow> VUSB_VIRTUAL_DEVICE option \<Rightarrow> bool" where
  "slot_ok s d =
     (case d of None \<Rightarrow> True
      | Some vdev \<Rightarrow> vd_DeviceId vdev = of_nat s + 1 \<and> vd_PortNumber vdev = of_nat s + 1)"

definition registry_inv :: "VUSB_DEVICE_CONTEXT \<Rightarrow> bool" where
  "registry_inv ctx \<longleftrightarrow> (\<forall>s \<in> {0..<VUSB_MAX_DEVICES}. slot_ok s (Devices ctx s))"

definition count_inv :: "VUSB_DEVICE_CONTEXT \<Rightarrow> bool" where
  "count_inv ctx \<longleftrightarrow>
     MaxDevices ctx = of_nat VUSB_MAX_DEVICES \<and>
     unat (DeviceCount ctx) = card {s \<in> {0..<VUSB_MAX_DEVICES}. Devices ctx s \<noteq> None}"

section \<open>Example states\<close>

text \<open>Concrete states on which the theorems below are evaluated.\<close>

definition ex_urb :: "uint32_t \<Rightarrow> uint32_t \<Rightarrow> nat \<Rightarrow> VUSB_URB_ENTRY" where
  "ex_urb urbId deviceId request =
     \<lparr>ue_UrbId = urbId, ue_SequenceNumber = urbId, ue_DeviceId = deviceId,
      ue_Request = Some request, ue_EndpointAddress = 0x81,
      ue_TransferType = VUSB_TRANSFER_BULK, ue_Direction = VUSB_DIR_IN, ue_TransferFlags = 1,
      ue_TransferBufferLength = 64, ue_TransferBuffer = Some (replicate 64 0),
      ue_TransferBufferMdl = None,
      ue_SetupPacket = \<lparr>bmRequestType = 0, bRequest = 0, wValue = 0, wIndex = 0, wLength = 0\<rparr>\<rparr>"

definition ex_driver :: "VUSB_URB_ENTRY list \<Rightarrow> VUSB_DEVICE_CONTEXT" where
  "ex_driver pending =
     VusbEvtDeviceAdd_context
       \<lparr>PendingUrbList := pending, PendingUrbCount := of_nat (length pending)\<rparr>"

definition ex_completion :: "uint32_t \<Rightarrow> uint32_t \<Rightarrow> uint32_t \<Rightarrow> VUSB_URB_COMPLETION" where
  "ex_completion deviceId urbId actualLength =
     \<lparr>uc_DeviceId = deviceId, uc_UrbId = urbId, uc_SequenceNumber = 0,
      uc_Status = VUSB_STATUS_SUCCESS, uc_ActualLength = actualLength\<rparr>"


definition ex_env :: environment where
  "ex_env = \<lparr>malloc_ok = True, pool_vdev_ok = True, pool_desc_ok = True, send_result = 0,
             uninit = (\<lambda>n. replicate n 0)\<rparr>"

definition ex_client :: VUSB_CLIENT_CONNECTION where
  "ex_client = \<lparr>SessionId = 1, Connected = True,
                ClientDevices = replicate 16 \<lparr>cd_Active = False, cd_DeviceId = 0, cd_RemoteId = 0\<rparr>,
                Sent = []\<rparr>"

definition ex_server :: "VUSB_DEVICE_CONTEXT \<Rightarrow> VUSB_SERVER_CONTEXT" where
  "ex_server drv = \<lparr>MaxClients = 32, DriverHandle = Some drv, Clients = [Some ex_client], nextId = 1\<rparr>"

definition ex_attached :: "VUSB_URB_ENTRY list \<Rightarrow> VUSB_DEVICE_CONTEXT" where
  "ex_attached pending =
     (snd (snd (VusbCreateVirtualDevice VusbEvtDeviceAdd_context [] None 0 True True)))
       \<lparr>PendingUrbList := pending, PendingUrbCount := of_nat (length pending)\<rparr>"

definition ex_owner :: VUSB_CLIENT_CONNECTION where
  "ex_owner = ex_client\<lparr>ClientDevices :=
     \<lparr>cd_Active = True, cd_DeviceId = 1, cd_RemoteId = 1\<rparr> #
     replicate 15 \<lparr>cd_Active = False, cd_DeviceId = 0, cd_RemoteId = 0\<rparr>\<rparr>"

text \<open>
  A \<^verbatim>\<open>URB_COMPLETE\<close> payload for device 1, URB 7, status 0 and an actual length of 100,
  whose 100 data bytes begin with the words 7, 0, 100, 0.
\<close>

definition ex_complete_payload :: bytes where
  "ex_complete_payload =
     put_le32 1 @ put_le32 7 @ put_le32 0 @ put_le32 100 @ put_le32 0 @
     (put_le32 7 @ put_le32 0 @ put_le32 100 @ put_le32 0 @ replicate 84 0xAA)"

text \<open>
  A forwarder whose server has one connected client, which owns device 1, and a pending
  bulk URB 7 for device 1 with the given direction and buffer length.
\<close>

definition ex_forwarder_owned :: SERVER_URB_CONTEXT where
  "ex_forwarder_owned =
     \<lparr>ServerContext = \<lparr>MaxClients = 32, DriverHandle = None, Clients = [Some ex_owner],
                        nextId = 1\<rparr>,
      su_DriverHandleValid = True, PendingList = [], PendingCount = 0\<rparr>"

definition ex_pending_urb :: "uint8_t \<Rightarrow> uint32_t \<Rightarrow> VUSB_PENDING_URB" where
  "ex_pending_urb direction len =
     \<lparr>pu_DeviceId = 1, pu_UrbId = 7, pu_SequenceNumber = 3, pu_EndpointAddress = 0x81,
      pu_TransferType = VUSB_TRANSFER_BULK, pu_Direction = direction, pu_Reserved = 0,
      pu_TransferFlags = 0, pu_TransferBufferLength = len, pu_Interval = 0,
      pu_SetupPacket = \<lparr>bmRequestType = 0, bRequest = 0, wValue = 0, wIndex = 0, wLength = 0\<rparr>\<rparr>"

text \<open>
  A device backend whose transfers all succeed in full, a connected client that has sent
  five messages and captured no device, and the payload of a \<^verbatim>\<open>SUBMIT_URB\<close> frame for
  URB 7 of device 1 (bulk IN on endpoint 0x81, 64 bytes).
\<close>

definition ex_backend :: backend where
  "ex_backend = \<lparr>open_ok = (\<lambda>device. True),
                 transfer = (\<lambda>device urbSubmit data len. (0, len, data))\<rparr>"

definition ex_client_ctx :: VUSB_CLIENT_CONTEXT_EX where
  "ex_client_ctx = \<lparr>cl_Connected = True, cl_Sequence = 5, CaptureDevices = [], cl_Sent = []\<rparr>"


text \<open>
  Sixteen bytes that form a header with a wrong magic number, and a \<^verbatim>\<open>PING\<close> frame with
  sequence number 9.
\<close>

definition ex_bad_header :: bytes where
  "ex_bad_header =
     VUSB_HEADER_bytes \<lparr>Magic = 0, Version = VUSB_PROTOCOL_VERSION, Command = VUSB_CMD_PING,
                         Length = 0, Sequence = 8\<rparr>"

definition ex_ping_frame :: bytes where
  "ex_ping_frame = frame_bytes (VusbInitHeader VUSB_CMD_PING 0 9) []"

text \<open>
  The 48 bytes of a \<^verbatim>\<open>SUBMIT_URB\<close> frame with sequence number 3 for URB 7 of device 1
  (endpoint 0x81, bulk, IN, 64 bytes), and a connected client that has sent five messages
  and has captured and opened device 1.
\<close>

definition ex_submit_frame :: bytes where
  "ex_submit_frame =
     [0x42, 0x53, 0x55, 0x56,  0x00, 0x01,  0x20, 0x00,  32, 0, 0, 0,  3, 0, 0, 0,
      1, 0, 0, 0,  7, 0, 0, 0,  0x81, 2, 1, 0,  0, 0, 0, 0,  64, 0, 0, 0,  0, 0, 0, 0,
      0, 0, 0, 0, 0, 0, 0, 0]"

definition ex_client_captured :: VUSB_CLIENT_CONTEXT_EX where
  "ex_client_captured =
     \<lparr>cl_Connected = True, cl_Sequence = 5,
      CaptureDevices = [\<lparr>cap_LocalId = 1, cap_Active = True, cap_Opened = True\<rparr>],
      cl_Sent = []\<rparr>"

section \<open>Framing lemmas\<close>

lemma get_put_le16: "get_le16 (put_le16 w @ bs) = w"
  unfolding put_le16_def
  apply simp
  apply (rule bit_word_eqI)
  subgoal for n
    by (cases "n < 8"; simp add: bit_simps not_less; auto)
  done

lemma get_put_le32: "get_le32 (put_le32 w @ bs) = w"
  unfolding put_le32_def
  apply simp
  apply (rule bit_word_eqI)
  subgoal for n
    by (cases "n < 8"; cases "n < 16"; cases "n < 24"; simp add: bit_simps not_less; auto)
  done

lemma length_put_le16: "length (put_le16 w) = 2"
  by (simp add: put_le16_def)

lemma length_put_le32: "length (put_le32 w) = 4"
  by (simp add: put_le32_def)

lemma length_VUSB_HEADER_bytes: "length (VUSB_HEADER_bytes header) = 16"
  by (simp add: VUSB_HEADER_bytes_def length_put_le16 length_put_le32)

lemma VUSB_HEADER_of_bytes_bytes:
  "VUSB_HEADER_of_bytes (VUSB_HEADER_bytes header @ bs) = header"
proof -
  have m: "get_le32 (VUSB_HEADER_bytes header @ bs) = Magic header"
    by (simp add: VUSB_HEADER_bytes_def get_put_le32)
  have v: "get_le16 (drop 4 (VUSB_HEADER_bytes header @ bs)) = Version header"
    by (simp add: VUSB_HEADER_bytes_def length_put_le32 get_put_le16)
  have c: "get_le16 (drop 6 (VUSB_HEADER_bytes header @ bs)) = Command header"
    by (simp add: VUSB_HEADER_bytes_def length_put_le32 length_put_le16 get_put_le16)
  have l: "get_le32 (drop 8 (VUSB_HEADER_bytes header @ bs)) = Length header"
    by (simp add: VUSB_HEADER_bytes_def length_put_le32 length_put_le16 get_put_le32)
  have s: "get_le32 (drop 12 (VUSB_HEADER_bytes header @ bs)) = Sequence header"
    by (simp add: VUSB_HEADER_bytes_def length_put_le32 length_put_le16 get_put_le32)
  show ?thesis
    unfolding VUSB_HEADER_of_bytes_def using m v c l s by simp
qed

lemma VusbValidateHeader_VusbInitHeader: "VusbValidateHeader (VusbInitHeader command len sequence)"
  by (simp add: VusbValidateHeader_def VusbInitHeader_def)

lemma recv_frame_frame_bytes:
  assumes "VusbValidateHeader header" and "length payload = unat (Length header)"
    and "unat (Length header) \<le> lim"
  shows "recv_frame lim (frame_bytes header payload @ rest) = Frame header payload rest"
proof -
  let ?s = "frame_bytes header payload @ rest"
  have len: "\<not> length ?s < sizeof_VUSB_HEADER"
    by (simp add: frame_bytes_def length_VUSB_HEADER_bytes sizeof_VUSB_HEADER_def)
  have tk: "take sizeof_VUSB_HEADER ?s = VUSB_HEADER_bytes header"
    by (simp add: frame_bytes_def length_VUSB_HEADER_bytes sizeof_VUSB_HEADER_def)
  have hd: "VUSB_HEADER_of_bytes (take sizeof_VUSB_HEADER ?s) = header"
    using VUSB_HEADER_of_bytes_bytes [of header "[]"] by (simp only: tk append_Nil2)
  have dr: "drop sizeof_VUSB_HEADER ?s = payload @ rest"
    by (simp add: frame_bytes_def length_VUSB_HEADER_bytes sizeof_VUSB_HEADER_def)
  show ?thesis
  proof (cases "Length header > 0")
    case True
    then show ?thesis
      unfolding recv_frame_def using len hd dr assms by (simp add: Let_def)
  next
    case False
    then have "Length header = 0" by (simp add: word_greater_zero_iff)
    with assms have "payload = []" by simp
    then show ?thesis
      unfolding recv_frame_def using len hd dr assms False by (simp add: Let_def)
  qed
qed

section \<open>Framing round trip\<close>

text \<open>
  A frame whose header was built by \<^verbatim>\<open>VusbInitHeader\<close> and that is followed by a payload of
  the declared length, within the receiver's payload bound, passes \<^verbatim>\<open>VusbValidateHeader\<close>
  and is read back by the receive step of the server and of the client as the same header
  and the same payload bytes, leaving exactly the bytes that followed the frame on the
  stream.  The header fields are the magic number 0x56555342, the version 0x0100, and the
  command, length and sequence number given.
\<close>

lemma VusbInitHeader_fields:
  "VusbInitHeader command len sequence =
     \<lparr>Magic = 0x56555342, Version = 0x0100, Command = command, Length = len,
      Sequence = sequence\<rparr>"
  by (simp add: VusbInitHeader_def VUSB_PROTOCOL_MAGIC_def VUSB_PROTOCOL_VERSION_def)

lemma frame_bytes_round_trip:
  assumes "length payload = unat len"
    and "unat len \<le> VUSB_MAX_PACKET_SIZE - sizeof_VUSB_HEADER"
  shows "VusbValidateHeader (VusbInitHeader command len sequence) \<and>
         server_recv_frame (frame_bytes (VusbInitHeader command len sequence) payload @ rest) =
           Frame (VusbInitHeader command len sequence) payload rest \<and>
         client_recv_frame (frame_bytes (VusbInitHeader command len sequence) payload @ rest) =
           Frame (VusbInitHeader command len sequence) payload rest"
proof -
  let ?h = "VusbInitHeader command len sequence"
  have v: "VusbValidateHeader ?h" by (rule VusbValidateHeader_VusbInitHeader)
  have l: "Length ?h = len" by (simp add: VusbInitHeader_def)
  have s: "server_recv_frame (frame_bytes ?h payload @ rest) = Frame ?h payload rest"
    unfolding server_recv_frame_def
    by (rule recv_frame_frame_bytes) (use v l assms in simp_all)
  have "unat len \<le> VUSB_MAX_PACKET_SIZE"
    using assms(2) by simp
  then have c: "client_recv_frame (frame_bytes ?h payload @ rest) = Frame ?h payload rest"
    unfolding client_recv_frame_def
    by (intro recv_frame_frame_bytes) (use v l assms in simp_all)
  from v s c show ?thesis by simp
qed

section \<open>Slot search and slot arithmetic\<close>

lemma find_free_slot_Some:
  "find_free_slot devs s = Some k \<Longrightarrow>
     s \<le> k \<and> k < VUSB_MAX_DEVICES \<and> devs k = None \<and> (\<forall>j. s \<le> j \<and> j < k \<longrightarrow> devs j \<noteq> None)"
proof (induction devs s rule: find_free_slot.induct)
  case (1 devs slot)
  show ?case
  proof (cases "slot < VUSB_MAX_DEVICES \<and> devs slot \<noteq> None")
    case True
    with "1.prems" have "find_free_slot devs (slot + 1) = Some k"
      by (simp add: find_free_slot.simps [of devs slot])
    with "1.IH" True have ih: "slot + 1 \<le> k \<and> k < VUSB_MAX_DEVICES \<and> devs k = None \<and>
        (\<forall>j. slot + 1 \<le> j \<and> j < k \<longrightarrow> devs j \<noteq> None)"
      by blast
    have "\<forall>j. slot \<le> j \<and> j < k \<longrightarrow> devs j \<noteq> None"
    proof (intro allI impI)
      fix j assume "slot \<le> j \<and> j < k"
      then have "j = slot \<or> (slot + 1 \<le> j \<and> j < k)" by arith
      with True ih show "devs j \<noteq> None" by blast
    qed
    with ih show ?thesis by simp
  next
    case False
    with "1.prems" show ?thesis
      by (auto simp add: find_free_slot.simps [of devs slot] split: if_splits)
  qed
qed

lemma find_free_slot_None:
  "find_free_slot devs s = None \<Longrightarrow> \<forall>j. s \<le> j \<and> j < VUSB_MAX_DEVICES \<longrightarrow> devs j \<noteq> None"
proof (induction devs s rule: find_free_slot.induct)
  case (1 devs slot)
  show ?case
  proof (cases "slot < VUSB_MAX_DEVICES")
    case True
    with "1.prems" have occ: "devs slot \<noteq> None" and rec: "find_free_slot devs (slot + 1) = None"
      by (auto simp add: find_free_slot.simps [of devs slot] split: if_splits)
    from "1.IH" True occ rec
    have ih: "\<forall>j. slot + 1 \<le> j \<and> j < VUSB_MAX_DEVICES \<longrightarrow> devs j \<noteq> None" by blast
    show ?thesis
    proof (intro allI impI)
      fix j assume "slot \<le> j \<and> j < VUSB_MAX_DEVICES"
      then have "j = slot \<or> (slot + 1 \<le> j \<and> j < VUSB_MAX_DEVICES)" by arith
      with occ ih show "devs j \<noteq> None" by blast
    qed
  next
    case False
    then show ?thesis by auto
  qed
qed

lemma unat_slot_id: "s < VUSB_MAX_DEVICES \<Longrightarrow> unat (of_nat s + 1 :: uint32_t) = s + 1"
  by (simp add: VUSB_MAX_DEVICES_def unat_word_ariths unat_of_nat)

lemma slot_word: "s < VUSB_MAX_DEVICES \<Longrightarrow> unat ((of_nat s + 1 :: uint32_t) - 1) = s"
  by (simp add: VUSB_MAX_DEVICES_def unat_of_nat)

lemma slot_word_range:
  assumes "s < VUSB_MAX_DEVICES"
  shows "(of_nat s + 1 :: uint32_t) \<noteq> 0 \<and> \<not> (of_nat s + 1 :: uint32_t) > of_nat VUSB_MAX_DEVICES"
proof -
  have u: "unat (of_nat s + 1 :: uint32_t) = s + 1"
    using assms by (rule unat_slot_id)
  have "unat (of_nat s + 1 :: uint32_t) \<noteq> 0" using u by simp
  then have a: "(of_nat s + 1 :: uint32_t) \<noteq> 0" by (simp add: unat_0_iff)
  have "unat (of_nat VUSB_MAX_DEVICES :: uint32_t) = 16"
    by (simp add: VUSB_MAX_DEVICES_def)
  with u assms have b: "\<not> (of_nat s + 1 :: uint32_t) > of_nat VUSB_MAX_DEVICES"
    by (simp add: word_less_nat_alt VUSB_MAX_DEVICES_def)
  from a b show ?thesis by simp
qed

lemma id_slot:
  fixes DeviceId :: uint32_t
  assumes "DeviceId \<noteq> 0" and "\<not> DeviceId > of_nat VUSB_MAX_DEVICES"
  shows "unat (DeviceId - 1) < VUSB_MAX_DEVICES \<and> of_nat (unat (DeviceId - 1)) + 1 = DeviceId"
proof -
  from assms(2) have le: "unat DeviceId \<le> 16"
    by (simp add: VUSB_MAX_DEVICES_def word_less_nat_alt not_less)
  from assms(1) have pos: "0 < unat DeviceId"
    by (simp add: unat_gt_0)
  then have "1 \<le> DeviceId" by (simp add: word_le_nat_alt)
  then have u: "unat (DeviceId - 1) = unat DeviceId - 1"
    by (simp add: unat_sub)
  with le pos have "unat (DeviceId - 1) < VUSB_MAX_DEVICES"
    by (simp add: VUSB_MAX_DEVICES_def)
  moreover have "of_nat (unat (DeviceId - 1)) + 1 = DeviceId"
    by simp
  ultimately show ?thesis by simp
qed


section \<open>The registry invariant\<close>

lemma registry_inv_init: "registry_inv VusbEvtDeviceAdd_context"
  by (simp add: registry_inv_def VusbEvtDeviceAdd_context_def slot_ok_def)

lemma registry_inv_create:
  assumes "registry_inv ctx"
  shows "registry_inv (snd (snd (VusbCreateVirtualDevice ctx info desc len a1 a2)))"
proof (cases "find_free_slot (Devices ctx) 0")
  case None
  then show ?thesis
    using assms by (simp add: VusbCreateVirtualDevice_def Let_def)
next
  case (Some slot)
  then have "slot < VUSB_MAX_DEVICES"
    using find_free_slot_Some by blast
  then show ?thesis
    using assms Some
    by (auto simp add: VusbCreateVirtualDevice_def Let_def registry_inv_def slot_ok_def)
qed

lemma registry_inv_destroy:
  assumes "registry_inv ctx"
  shows "registry_inv (snd (VusbDestroyVirtualDevice ctx DeviceId))"
  using assms
  by (auto simp add: VusbDestroyVirtualDevice_def Let_def registry_inv_def slot_ok_def
      split: option.splits)

lemma registry_inv_find:
  assumes "registry_inv ctx" and "VusbFindDevice ctx DeviceId = Some vdev"
  shows "vd_DeviceId vdev = DeviceId \<and> vd_PortNumber vdev = DeviceId"
proof -
  from assms(2) have ne: "DeviceId \<noteq> 0" and le: "\<not> DeviceId > of_nat VUSB_MAX_DEVICES"
    and dev: "Devices ctx (unat (DeviceId - 1)) = Some vdev"
    by (auto simp add: VusbFindDevice_def split: if_splits)
  from id_slot [OF ne le] have s: "unat (DeviceId - 1) < VUSB_MAX_DEVICES"
    and e: "of_nat (unat (DeviceId - 1)) + 1 = DeviceId" by simp_all
  from assms(1) s have "slot_ok (unat (DeviceId - 1)) (Devices ctx (unat (DeviceId - 1)))"
    by (simp add: registry_inv_def)
  with dev e show ?thesis by (simp add: slot_ok_def)
qed

text \<open>
  Claim C10.  Every slot of the driver's device array is either empty or holds a device
  whose \<^verbatim>\<open>DeviceId\<close> and \<^verbatim>\<open>PortNumber\<close> both equal the slot index plus one.  This holds
  of the context \<^verbatim>\<open>VusbEvtDeviceAdd\<close> sets up and is preserved by
  \<^verbatim>\<open>VusbCreateVirtualDevice\<close> and \<^verbatim>\<open>VusbDestroyVirtualDevice\<close>, whatever their arguments
  and outcome; under it, a device returned by \<^verbatim>\<open>VusbFindDevice\<close> for an id carries that id.
\<close>

theorem registry_invariant:
  "registry_inv VusbEvtDeviceAdd_context \<and>
   (\<forall>ctx info desc len a1 a2.
      registry_inv ctx \<longrightarrow>
      registry_inv (snd (snd (VusbCreateVirtualDevice ctx info desc len a1 a2)))) \<and>
   (\<forall>ctx DeviceId.
      registry_inv ctx \<longrightarrow> registry_inv (snd (VusbDestroyVirtualDevice ctx DeviceId))) \<and>
   (\<forall>ctx DeviceId vdev.
      registry_inv ctx \<longrightarrow> VusbFindDevice ctx DeviceId = Some vdev \<longrightarrow>
      vd_DeviceId vdev = DeviceId \<and> vd_PortNumber vdev = DeviceId)"
  using registry_inv_init registry_inv_create registry_inv_destroy registry_inv_find
  by blast

lemma find_free_slot_empty: "find_free_slot Map.empty 0 = Some 0"
  by (simp add: find_free_slot.simps [of _ 0] VUSB_MAX_DEVICES_def)

theorem registry_invariant_witness:
  "registry_inv VusbEvtDeviceAdd_context \<and>
   registry_inv (snd (snd (VusbCreateVirtualDevice VusbEvtDeviceAdd_context [] None 0 True True))) \<and>
   map_option vd_DeviceId
     (VusbFindDevice (snd (snd (VusbCreateVirtualDevice VusbEvtDeviceAdd_context [] None 0 True True))) 1)
     = Some 1"
proof -
  let ?c = "snd (snd (VusbCreateVirtualDevice VusbEvtDeviceAdd_context [] None 0 True True))"
  have i: "registry_inv VusbEvtDeviceAdd_context"
    using registry_invariant by blast
  then have c: "registry_inv ?c"
    using registry_invariant by blast
  have "\<exists>vdev. VusbFindDevice ?c 1 = Some vdev"
    by (simp add: VusbCreateVirtualDevice_def VusbEvtDeviceAdd_context_def Let_def
        find_free_slot_empty VusbFindDevice_def VUSB_MAX_DEVICES_def)
  then obtain vdev where f: "VusbFindDevice ?c 1 = Some vdev" by blast
  with c have "vd_DeviceId vdev = 1"
    using registry_invariant by blast
  with i c f show ?thesis by simp
qed



section \<open>Attaching a device\<close>

lemma count_inv_init: "count_inv VusbEvtDeviceAdd_context"
  by (simp add: count_inv_def VusbEvtDeviceAdd_context_def)

lemma occupied_card_less:
  assumes "s < VUSB_MAX_DEVICES" and "devs s = None"
  shows "card {s \<in> {0..<VUSB_MAX_DEVICES}. devs s \<noteq> None} < VUSB_MAX_DEVICES"
proof -
  have "{s \<in> {0..<VUSB_MAX_DEVICES}. devs s \<noteq> None} \<subseteq> {0..<VUSB_MAX_DEVICES}"
    by blast
  moreover have "s \<in> {0..<VUSB_MAX_DEVICES}" using assms by simp
  moreover have "s \<notin> {s \<in> {0..<VUSB_MAX_DEVICES}. devs s \<noteq> None}" using assms by simp
  ultimately have "{s \<in> {0..<VUSB_MAX_DEVICES}. devs s \<noteq> None} \<subset> {0..<VUSB_MAX_DEVICES}"
    by blast
  then have "card {s \<in> {0..<VUSB_MAX_DEVICES}. devs s \<noteq> None} < card {0..<VUSB_MAX_DEVICES}"
    by (intro psubset_card_mono) simp_all
  then show ?thesis by simp
qed

lemma count_inv_not_full:
  assumes "count_inv ctx" and "s < VUSB_MAX_DEVICES" and "Devices ctx s = None"
  shows "\<not> DeviceCount ctx \<ge> MaxDevices ctx" and "unat (DeviceCount ctx) < VUSB_MAX_DEVICES"
proof -
  from assms have c: "unat (DeviceCount ctx) < VUSB_MAX_DEVICES"
    using occupied_card_less [of s "Devices ctx"] by (simp add: count_inv_def)
  then show "unat (DeviceCount ctx) < VUSB_MAX_DEVICES" .
  from assms(1) have "unat (MaxDevices ctx) = VUSB_MAX_DEVICES"
    by (simp add: count_inv_def VUSB_MAX_DEVICES_def)
  with c show "\<not> DeviceCount ctx \<ge> MaxDevices ctx"
    by (simp add: word_le_nat_alt)
qed

lemma count_inv_create:
  assumes "count_inv ctx"
  shows "count_inv (snd (snd (VusbCreateVirtualDevice ctx info desc len a1 a2)))"
proof (cases "a1 \<and> \<not> (len > 0 \<and> desc \<noteq> None \<and> \<not> a2) \<and> \<not> DeviceCount ctx \<ge> MaxDevices ctx")
  case False
  then show ?thesis using assms
    by (auto simp add: VusbCreateVirtualDevice_def Let_def)
next
  case True
  show ?thesis
  proof (cases "find_free_slot (Devices ctx) 0")
    case None
    then show ?thesis using assms
      by (auto simp add: VusbCreateVirtualDevice_def Let_def)
  next
    case (Some slot)
    from find_free_slot_Some [OF Some]
    have p: "slot < VUSB_MAX_DEVICES" "Devices ctx slot = None" by simp_all
    let ?old = "{s \<in> {0..<VUSB_MAX_DEVICES}. Devices ctx s \<noteq> None}"
    have lt: "unat (DeviceCount ctx) < VUSB_MAX_DEVICES"
      using assms p by (rule count_inv_not_full)
    then have u: "unat (DeviceCount ctx + 1) = unat (DeviceCount ctx) + 1"
      by (simp add: VUSB_MAX_DEVICES_def unat_word_ariths)
    have "\<And>vdev. {s \<in> {0..<VUSB_MAX_DEVICES}. ((Devices ctx)(slot \<mapsto> vdev)) s \<noteq> None} = insert slot ?old"
      using p by auto
    moreover have "slot \<notin> ?old" using p by simp
    moreover have "finite ?old" by simp
    ultimately have
      "\<And>vdev. card {s \<in> {0..<VUSB_MAX_DEVICES}. ((Devices ctx)(slot \<mapsto> vdev)) s \<noteq> None} = card ?old + 1"
      by simp
    then show ?thesis
      using assms True Some u
      by (simp add: VusbCreateVirtualDevice_def Let_def count_inv_def)
  qed
qed

lemma count_inv_destroy:
  assumes "count_inv ctx"
  shows "count_inv (snd (VusbDestroyVirtualDevice ctx DeviceId))"
proof (cases "DeviceId = 0 \<or> DeviceId > of_nat VUSB_MAX_DEVICES")
  case True
  then show ?thesis using assms by (simp add: VusbDestroyVirtualDevice_def)
next
  case False
  then have s: "unat (DeviceId - 1) < VUSB_MAX_DEVICES"
    using id_slot [of DeviceId] by simp
  let ?slot = "unat (DeviceId - 1)"
  let ?old = "{s \<in> {0..<VUSB_MAX_DEVICES}. Devices ctx s \<noteq> None}"
  show ?thesis
  proof (cases "Devices ctx ?slot")
    case None
    then show ?thesis using assms False by (simp add: VusbDestroyVirtualDevice_def Let_def)
  next
    case (Some vdev)
    have mem: "?slot \<in> ?old" using s Some by simp
    have fin: "finite ?old" by simp
    have "{s \<in> {0..<VUSB_MAX_DEVICES}. ((Devices ctx)(?slot := None)) s \<noteq> None} = ?old - {?slot}"
      by auto
    then have c: "card {s \<in> {0..<VUSB_MAX_DEVICES}. ((Devices ctx)(?slot := None)) s \<noteq> None}
        = card ?old - 1"
      using mem fin by simp
    have "card ?old \<noteq> 0" using mem fin by auto
    with assms have "DeviceCount ctx \<noteq> 0"
      by (auto simp add: count_inv_def)
    then have u: "unat (DeviceCount ctx - 1) = unat (DeviceCount ctx) - 1"
      by (rule unat_minus_one)
    show ?thesis
      using assms False Some c u
      by (simp add: VusbDestroyVirtualDevice_def Let_def count_inv_def)
  qed
qed

lemma create_success:
  assumes "count_inv ctx" and "s < VUSB_MAX_DEVICES" and "Devices ctx s = None"
  shows "\<exists>slot ctx'. slot < VUSB_MAX_DEVICES \<and> Devices ctx slot = None \<and>
           (\<forall>j < slot. Devices ctx j \<noteq> None) \<and>
           VusbCreateVirtualDevice ctx info desc len True True =
             (STATUS_SUCCESS, of_nat slot + 1, ctx') \<and>
           (\<exists>vdev. Devices ctx' slot = Some vdev \<and> vd_DeviceId vdev = of_nat slot + 1 \<and>
                    vd_PortNumber vdev = of_nat slot + 1) \<and>
           (\<forall>j. j \<noteq> slot \<longrightarrow> Devices ctx' j = Devices ctx j)"
proof -
  have nf: "\<not> DeviceCount ctx \<ge> MaxDevices ctx"
    using assms by (rule count_inv_not_full)
  have "find_free_slot (Devices ctx) 0 \<noteq> None"
  proof
    assume "find_free_slot (Devices ctx) 0 = None"
    from find_free_slot_None [OF this] assms(2,3) show False by auto
  qed
  then obtain slot where f: "find_free_slot (Devices ctx) 0 = Some slot" by blast
  from find_free_slot_Some [OF f]
  have p: "slot < VUSB_MAX_DEVICES" "Devices ctx slot = None" "\<forall>j < slot. Devices ctx j \<noteq> None"
    by simp_all
  let ?r = "VusbCreateVirtualDevice ctx info desc len True True"
  have r1: "fst ?r = STATUS_SUCCESS"
    using nf f by (simp add: VusbCreateVirtualDevice_def Let_def)
  have r2: "fst (snd ?r) = of_nat slot + 1"
    using nf f by (simp add: VusbCreateVirtualDevice_def Let_def)
  have r3: "\<exists>vdev. Devices (snd (snd ?r)) slot = Some vdev \<and> vd_DeviceId vdev = of_nat slot + 1 \<and>
                    vd_PortNumber vdev = of_nat slot + 1"
    using nf f by (simp add: VusbCreateVirtualDevice_def Let_def)
  have r4: "\<forall>j. j \<noteq> slot \<longrightarrow> Devices (snd (snd ?r)) j = Devices ctx j"
    using nf f by (simp add: VusbCreateVirtualDevice_def Let_def)
  have c: "?r = (STATUS_SUCCESS, of_nat slot + 1, snd (snd ?r))"
    using r1 r2 by (metis prod.collapse)
  show ?thesis
    apply (rule exI [of _ slot])
    apply (rule exI [of _ "snd (snd ?r)"])
    using p c r3 r4 apply simp
    done
qed

lemma create_full:
  assumes "\<forall>s < VUSB_MAX_DEVICES. Devices ctx s \<noteq> None"
  shows "VusbCreateVirtualDevice ctx info desc len True True = (STATUS_TOO_MANY_NODES, 0, ctx)"
    and "fst (VusbCreateVirtualDevice ctx info desc len a1 a2) \<noteq> STATUS_SUCCESS"
    and "snd (VusbCreateVirtualDevice ctx info desc len a1 a2) = (0, ctx)"
proof -
  have "find_free_slot (Devices ctx) 0 = None"
  proof (cases "find_free_slot (Devices ctx) 0")
    case None then show ?thesis .
  next
    case (Some slot)
    from find_free_slot_Some [OF Some] assms show ?thesis by auto
  qed
  then show "VusbCreateVirtualDevice ctx info desc len True True = (STATUS_TOO_MANY_NODES, 0, ctx)"
    and "fst (VusbCreateVirtualDevice ctx info desc len a1 a2) \<noteq> STATUS_SUCCESS"
    and "snd (VusbCreateVirtualDevice ctx info desc len a1 a2) = (0, ctx)"
    by (simp_all add: VusbCreateVirtualDevice_def Let_def)
qed

text \<open>
  Claim C5.  In a context whose \<^verbatim>\<open>DeviceCount\<close> equals the number of occupied slots (which
  holds initially and is preserved by creation and destruction, see \<open>count_inv_init\<close>,
  \<open>count_inv_create\<close> and \<open>count_inv_destroy\<close>), and when both pool allocations succeed:
  if one of the \<^verbatim>\<open>VUSB_MAX_DEVICES\<close> slots is vacant, \<^verbatim>\<open>VusbCreateVirtualDevice\<close> succeeds,
  puts the device into the vacant slot of lowest index, returns that index plus one as the
  device id and leaves every other slot as it was; if all slots are occupied it returns
  \<^verbatim>\<open>STATUS_TOO_MANY_NODES\<close> with id 0 and leaves the context unchanged (and whatever the
  allocations do, a full registry is never changed and the call never succeeds).
\<close>

theorem create_assigns_lowest_free_slot:
  assumes "count_inv ctx"
  shows "((\<exists>s < VUSB_MAX_DEVICES. Devices ctx s = None) \<longrightarrow>
           (\<exists>slot ctx'. slot < VUSB_MAX_DEVICES \<and> Devices ctx slot = None \<and>
              (\<forall>j < slot. Devices ctx j \<noteq> None) \<and>
              VusbCreateVirtualDevice ctx info desc len True True =
                (STATUS_SUCCESS, of_nat slot + 1, ctx') \<and>
              (\<exists>vdev. Devices ctx' slot = Some vdev \<and> vd_DeviceId vdev = of_nat slot + 1 \<and>
                       vd_PortNumber vdev = of_nat slot + 1) \<and>
              (\<forall>j. j \<noteq> slot \<longrightarrow> Devices ctx' j = Devices ctx j))) \<and>
         ((\<forall>s < VUSB_MAX_DEVICES. Devices ctx s \<noteq> None) \<longrightarrow>
            VusbCreateVirtualDevice ctx info desc len True True = (STATUS_TOO_MANY_NODES, 0, ctx) \<and>
            fst (VusbCreateVirtualDevice ctx info desc len a1 a2) \<noteq> STATUS_SUCCESS \<and>
            snd (VusbCreateVirtualDevice ctx info desc len a1 a2) = (0, ctx))"
proof (intro conjI impI)
  assume "\<exists>s < VUSB_MAX_DEVICES. Devices ctx s = None"
  then obtain s where "s < VUSB_MAX_DEVICES" and "Devices ctx s = None" by blast
  then show "\<exists>slot ctx'. slot < VUSB_MAX_DEVICES \<and> Devices ctx slot = None \<and>
              (\<forall>j < slot. Devices ctx j \<noteq> None) \<and>
              VusbCreateVirtualDevice ctx info desc len True True =
                (STATUS_SUCCESS, of_nat slot + 1, ctx') \<and>
              (\<exists>vdev. Devices ctx' slot = Some vdev \<and> vd_DeviceId vdev = of_nat slot + 1 \<and>
                       vd_PortNumber vdev = of_nat slot + 1) \<and>
              (\<forall>j. j \<noteq> slot \<longrightarrow> Devices ctx' j = Devices ctx j)"
    by (rule create_success [OF assms])
next
  assume full: "\<forall>s < VUSB_MAX_DEVICES. Devices ctx s \<noteq> None"
  show "VusbCreateVirtualDevice ctx info desc len True True = (STATUS_TOO_MANY_NODES, 0, ctx)"
    by (rule create_full(1) [OF full])
  show "fst (VusbCreateVirtualDevice ctx info desc len a1 a2) \<noteq> STATUS_SUCCESS"
    by (rule create_full(2) [OF full])
  show "snd (VusbCreateVirtualDevice ctx info desc len a1 a2) = (0, ctx)"
    by (rule create_full(3) [OF full])
qed

theorem create_assigns_lowest_free_slot_witness:
  "count_inv VusbEvtDeviceAdd_context \<and>
   fst (VusbCreateVirtualDevice VusbEvtDeviceAdd_context [] None 0 True True) = STATUS_SUCCESS \<and>
   fst (snd (VusbCreateVirtualDevice VusbEvtDeviceAdd_context [] None 0 True True)) = 1"
proof -
  have i: "count_inv VusbEvtDeviceAdd_context" by (rule count_inv_init)
  have e: "\<exists>s < VUSB_MAX_DEVICES. Devices VusbEvtDeviceAdd_context s = None"
    by (intro exI [of _ 0]) (simp add: VusbEvtDeviceAdd_context_def VUSB_MAX_DEVICES_def)
  from create_assigns_lowest_free_slot [OF i, of "[]" None 0 True True] e
  obtain slot ctx' where "Devices VusbEvtDeviceAdd_context slot = None"
    and lo: "\<forall>j < slot. Devices VusbEvtDeviceAdd_context j \<noteq> None"
    and r: "VusbCreateVirtualDevice VusbEvtDeviceAdd_context [] None 0 True True =
              (STATUS_SUCCESS, of_nat slot + 1, ctx')"
    by blast
  have "slot = 0"
  proof (rule ccontr)
    assume "slot \<noteq> 0"
    then have "0 < slot" by simp
    with lo have "Devices VusbEvtDeviceAdd_context 0 \<noteq> None" by blast
    then show False by (simp add: VusbEvtDeviceAdd_context_def)
  qed
  with i r show ?thesis by simp
qed

section \<open>Matching completions with pending URBs\<close>

lemma unlink_urb_Some:
  "unlink_urb u xs = Some (e, r) \<Longrightarrow>
     \<exists>pre post. xs = pre @ e # post \<and> ue_UrbId e = u \<and> (\<forall>x \<in> set pre. ue_UrbId x \<noteq> u) \<and>
                r = pre @ post"
proof (induction xs arbitrary: r)
  case Nil
  then show ?case by simp
next
  case (Cons x xs)
  show ?case
  proof (cases "ue_UrbId x = u")
    case True
    with Cons.prems have "e = x" and "r = xs" by simp_all
    with True have "x # xs = [] @ e # xs \<and> ue_UrbId e = u \<and> (\<forall>y \<in> set []. ue_UrbId y \<noteq> u) \<and> r = [] @ xs"
      by simp
    then show ?thesis by blast
  next
    case False
    with Cons.prems obtain r' where u: "unlink_urb u xs = Some (e, r')" and r: "r = x # r'"
      by (auto split: option.splits)
    from Cons.IH [OF u] obtain pre post where
      p: "xs = pre @ e # post" "ue_UrbId e = u" "\<forall>y \<in> set pre. ue_UrbId y \<noteq> u" "r' = pre @ post"
      by blast
    with False r have "x # xs = (x # pre) @ e # post \<and> ue_UrbId e = u \<and>
        (\<forall>y \<in> set (x # pre). ue_UrbId y \<noteq> u) \<and> r = (x # pre) @ post"
      by simp
    then show ?thesis by blast
  qed
qed

lemma unlink_urb_None: "unlink_urb u xs = None \<longleftrightarrow> (\<forall>x \<in> set xs. ue_UrbId x \<noteq> u)"
  by (induction xs) (auto split: option.splits)


lemma unlink_pending_Some:
  "unlink_pending u xs = Some (e, r) \<Longrightarrow>
     \<exists>pre post. xs = pre @ e # post \<and> sp_UrbId e = u \<and> (\<forall>x \<in> set pre. sp_UrbId x \<noteq> u) \<and>
                r = pre @ post"
proof (induction xs arbitrary: r)
  case Nil
  then show ?case by simp
next
  case (Cons x xs)
  show ?case
  proof (cases "sp_UrbId x = u")
    case True
    with Cons.prems have "e = x" and "r = xs" by simp_all
    with True have "x # xs = [] @ e # xs \<and> sp_UrbId e = u \<and> (\<forall>y \<in> set []. sp_UrbId y \<noteq> u) \<and> r = [] @ xs"
      by simp
    then show ?thesis by blast
  next
    case False
    with Cons.prems obtain r' where u: "unlink_pending u xs = Some (e, r')" and r: "r = x # r'"
      by (auto split: option.splits)
    from Cons.IH [OF u] obtain pre post where
      p: "xs = pre @ e # post" "sp_UrbId e = u" "\<forall>y \<in> set pre. sp_UrbId y \<noteq> u" "r' = pre @ post"
      by blast
    with False r have "x # xs = (x # pre) @ e # post \<and> sp_UrbId e = u \<and>
        (\<forall>y \<in> set (x # pre). sp_UrbId y \<noteq> u) \<and> r = (x # pre) @ post"
      by simp
    then show ?thesis by blast
  qed
qed

lemma unlink_pending_None: "unlink_pending u xs = None \<longleftrightarrow> (\<forall>x \<in> set xs. sp_UrbId x \<noteq> u)"
  by (induction xs) (auto split: option.splits)



lemma VusbCompleteUrb_completed:
  "Completed (VusbCompleteUrb ctx e st al d) =
     Completed ctx @
       (case ue_Request e of
          None \<Rightarrow> []
        | Some request \<Rightarrow>
            [\<lparr>wc_Request = request, wc_Status = st, wc_Information = al,
              wc_TransferBuffer =
                (case (d, ue_TransferBuffer e) of
                   (Some data, Some buffer) \<Rightarrow>
                     (if al > 0
                      then Some (RtlCopyMemory buffer data (unat (min al (ue_TransferBufferLength e))))
                      else Some buffer)
                 | (_, buffer) \<Rightarrow> buffer)\<rparr>])"
  by (simp add: VusbCompleteUrb_def Let_def split: option.splits)

lemma VusbFindUrb_Some:
  assumes "VusbFindUrb ctx u = (Some e, ctx1)"
  shows "\<exists>pre post. PendingUrbList ctx = pre @ e # post \<and> ue_UrbId e = u \<and>
           (\<forall>x \<in> set pre. ue_UrbId x \<noteq> u) \<and> PendingUrbList ctx1 = pre @ post \<and>
           ctx1 = ctx\<lparr>PendingUrbList := pre @ post, PendingUrbCount := PendingUrbCount ctx - 1\<rparr>"
proof -
  from assms obtain r where u: "unlink_urb u (PendingUrbList ctx) = Some (e, r)"
    and c: "ctx1 = ctx\<lparr>PendingUrbList := r, PendingUrbCount := PendingUrbCount ctx - 1\<rparr>"
    by (auto simp add: VusbFindUrb_def split: option.splits)
  from unlink_urb_Some [OF u] c show ?thesis by auto
qed

lemma VusbFindUrb_None:
  "VusbFindUrb ctx u = (None, ctx1) \<longleftrightarrow> (\<forall>x \<in> set (PendingUrbList ctx). ue_UrbId x \<noteq> u) \<and> ctx1 = ctx"
  by (auto simp add: VusbFindUrb_def unlink_urb_None [symmetric] split: option.splits)


lemma ServerUrbComplete_found:
  assumes "ServerUrbComplete sctx u st al dt m = (rc, sctx1, io)" and "rc = 0"
  shows "\<exists>pre cur post. PendingList sctx = pre @ cur # post \<and> sp_UrbId cur = u \<and>
           (\<forall>x \<in> set pre. sp_UrbId x \<noteq> u) \<and> PendingList sctx1 = pre @ post \<and>
           (\<forall>cmp dat. io = Some (cmp, dat) \<longrightarrow>
              uc_DeviceId cmp = sp_DeviceId cur \<and> uc_UrbId cmp = u)"
proof -
  from assms obtain cur r where u: "unlink_pending u (PendingList sctx) = Some (cur, r)"
    by (auto simp add: ServerUrbComplete_def split: option.splits)
  from unlink_pending_Some [OF u] obtain pre post where
    p: "PendingList sctx = pre @ cur # post" "sp_UrbId cur = u"
       "\<forall>x \<in> set pre. sp_UrbId x \<noteq> u" "r = pre @ post" by blast
  from assms(1) u have l: "PendingList sctx1 = r"
    and i: "\<forall>cmp dat. io = Some (cmp, dat) \<longrightarrow> uc_DeviceId cmp = sp_DeviceId cur \<and> uc_UrbId cmp = u"
    by (auto simp add: ServerUrbComplete_def split: if_splits)
  from p l i show ?thesis by blast
qed

lemma ServerUrbComplete_not_found:
  assumes "ServerUrbComplete sctx u st al dt m = (rc, sctx1, io)" and "rc \<noteq> 0"
  shows "rc = -1 \<and> sctx1 = sctx \<and> io = None \<and> (\<forall>x \<in> set (PendingList sctx). sp_UrbId x \<noteq> u)"
  using assms
  by (auto simp add: ServerUrbComplete_def unlink_pending_None [symmetric] split: option.splits)











section \<open>Completing a URB at most once\<close>









section \<open>The length a completion reports\<close>

lemma VusbCompleteUrb_reports:
  assumes "ue_Request e = Some r"
  shows "\<exists>w k. Completed (VusbCompleteUrb ctx e st al d) = Completed ctx @ [w] \<and>
           wc_Request w = r \<and> wc_Status w = st \<and> wc_Information w = al \<and>
           k \<le> unat (ue_TransferBufferLength e) \<and> k \<le> unat al \<and>
           wc_TransferBuffer w =
             (case ue_TransferBuffer e of
                None \<Rightarrow> None
              | Some buffer \<Rightarrow>
                  Some (case d of None \<Rightarrow> buffer | Some data \<Rightarrow> RtlCopyMemory buffer data k))"
proof (cases "d \<noteq> None \<and> ue_TransferBuffer e \<noteq> None \<and> al > 0")
  case True
  then obtain data buffer where d: "d = Some data" and b: "ue_TransferBuffer e = Some buffer"
    and p: "al > 0" by auto
  let ?k = "unat (min al (ue_TransferBufferLength e))"
  have k: "?k \<le> unat (ue_TransferBufferLength e)" "?k \<le> unat al"
    by (simp_all add: min_def word_le_nat_alt)
  show ?thesis
    apply (rule exI [of _ "\<lparr>wc_Request = r, wc_Status = st, wc_Information = al,
        wc_TransferBuffer = Some (RtlCopyMemory buffer data ?k)\<rparr>"])
    apply (rule exI [of _ ?k])
    using assms d b p k apply (simp add: VusbCompleteUrb_completed)
    done
next
  case False
  show ?thesis
    apply (rule exI [of _ "\<lparr>wc_Request = r, wc_Status = st, wc_Information = al,
        wc_TransferBuffer = ue_TransferBuffer e\<rparr>"])
    apply (rule exI [of _ 0])
    using assms False
    apply (auto simp add: VusbCompleteUrb_completed RtlCopyMemory_def split: option.splits)
    done
qed

lemma VusbFindUrb_completed: "Completed (snd (VusbFindUrb ctx u)) = Completed ctx"
  by (simp add: VusbFindUrb_def split: option.splits)

text \<open>
  Claim C9, as the code has it.  When the driver completes a pending URB, the length it
  reports to the submitter (the information of the completed request) is the
  \<^verbatim>\<open>ActualLength\<close> of the completion it was handed, unchanged; what is bounded by the
  URB's \<^verbatim>\<open>TransferBufferLength\<close> is the number \<open>k\<close> of bytes copied into the transfer
  buffer.  So the reported length is at most \<^verbatim>\<open>TransferBufferLength\<close> exactly when the
  completion's \<^verbatim>\<open>ActualLength\<close> is.
\<close>

theorem completion_reports_given_length:
  assumes "VusbFindUrb ctx (uc_UrbId c) = (Some e, ctx1)"
    and "sizeof_VUSB_URB_COMPLETION \<le> n"
    and "ue_Request e = Some r"
  shows "\<exists>w k. Completed (snd (VusbHandleCompleteUrb ctx n c t)) = Completed ctx @ [w] \<and>
           wc_Request w = r \<and> wc_Information w = uc_ActualLength c \<and>
           k \<le> unat (ue_TransferBufferLength e) \<and> k \<le> unat (uc_ActualLength c) \<and>
           (\<forall>buffer. ue_TransferBuffer e = Some buffer \<longrightarrow>
              wc_TransferBuffer w = Some buffer \<or>
              wc_TransferBuffer w = Some (RtlCopyMemory buffer t k))"
proof -
  obtain st d where h: "snd (VusbHandleCompleteUrb ctx n c t) =
      VusbCompleteUrb ctx1 e st (uc_ActualLength c) d" and dd: "d = None \<or> d = Some t"
    using assms(1,2) by (simp add: VusbHandleCompleteUrb_def Let_def)
  have c1: "Completed ctx1 = Completed ctx"
    using VusbFindUrb_completed [of ctx "uc_UrbId c"] assms(1) by simp
  from VusbCompleteUrb_reports [OF assms(3), of ctx1 st "uc_ActualLength c" d]
  obtain w k where w: "Completed (VusbCompleteUrb ctx1 e st (uc_ActualLength c) d) = Completed ctx1 @ [w]"
    "wc_Request w = r" "wc_Information w = uc_ActualLength c"
    "k \<le> unat (ue_TransferBufferLength e)" "k \<le> unat (uc_ActualLength c)"
    "wc_TransferBuffer w =
             (case ue_TransferBuffer e of
                None \<Rightarrow> None
              | Some buffer \<Rightarrow>
                  Some (case d of None \<Rightarrow> buffer | Some data \<Rightarrow> RtlCopyMemory buffer data k))"
    by blast
  have "\<forall>buffer. ue_TransferBuffer e = Some buffer \<longrightarrow>
              wc_TransferBuffer w = Some buffer \<or>
              wc_TransferBuffer w = Some (RtlCopyMemory buffer t k)"
    using w(6) dd by auto
  with w(1-5) h c1 show ?thesis by auto
qed

lemma ex_find_7_one:
  "VusbFindUrb (ex_driver [ex_urb 7 1 10]) 7 =
     (Some (ex_urb 7 1 10),
      (ex_driver [ex_urb 7 1 10])\<lparr>PendingUrbList := [], PendingUrbCount := 0\<rparr>)"
  by (simp add: VusbFindUrb_def ex_driver_def ex_urb_def)

theorem completion_reports_given_length_witness:
  "\<exists>w. Completed (snd (VusbHandleCompleteUrb (ex_driver [ex_urb 7 1 10])
                          (sizeof_VUSB_URB_COMPLETION + 8) (ex_completion 1 7 8)
                          [0xDE, 0xAD, 0xBE, 0xEF, 0, 1, 2, 3])) = [w] \<and>
        wc_Request w = 10 \<and> wc_Information w = 8"
proof -
  have r: "ue_Request (ex_urb 7 1 10) = Some 10" by (simp add: ex_urb_def)
  have u: "VusbFindUrb (ex_driver [ex_urb 7 1 10]) (uc_UrbId (ex_completion 1 7 8)) =
     (Some (ex_urb 7 1 10),
      (ex_driver [ex_urb 7 1 10])\<lparr>PendingUrbList := [], PendingUrbCount := 0\<rparr>)"
    using ex_find_7_one by (simp add: ex_completion_def)
  have n: "sizeof_VUSB_URB_COMPLETION \<le> sizeof_VUSB_URB_COMPLETION + 8" by simp
  from completion_reports_given_length [OF u n r, of "[0xDE, 0xAD, 0xBE, 0xEF, 0, 1, 2, 3]"]
  show ?thesis
    by (auto simp add: ex_completion_def ex_driver_def VusbEvtDeviceAdd_context_def)
qed

lemma ex_complete_payload_fields:
  "VUSB_URB_COMPLETE_of_bytes (ex_complete_payload @ rest) =
     \<lparr>cm_Header = VUSB_HEADER_of_bytes (ex_complete_payload @ rest),
      cm_DeviceId = 0, cm_UrbId = 7, cm_Status = 0, cm_ActualLength = 100, cm_ErrorCount = 0\<rparr>"
  by (simp add: VUSB_URB_COMPLETE_of_bytes_def ex_complete_payload_def put_le32_def)

text \<open>
  Claim C9 as stated fails: for a pending URB with a transfer buffer of 64 bytes, a
  \<^verbatim>\<open>URB_COMPLETE\<close> frame of 120 payload bytes whose actual length is 100 makes the driver
  complete the request with 100 as the transferred length.
\<close>

theorem actual_length_bound_counterexample:
  "map_option (\<lambda>drv. map (\<lambda>w. (wc_Request w, wc_Information w)) (Completed drv))
     (DriverHandle
        (VusbServerHandleUrbComplete ex_env (ex_server (ex_driver [ex_urb 7 1 10])) ex_client
           (VusbInitHeader VUSB_CMD_URB_COMPLETE 120 5)
           (ex_complete_payload @ replicate 16 0) 120)) = Some [(10, 100)] \<and>
   ue_TransferBufferLength (ex_urb 7 1 10) = 64 \<and>
   length ex_complete_payload = 120 \<and>
   get_le32 (drop 12 ex_complete_payload) = 100"
proof -
  have a: "map_option (\<lambda>drv. map (\<lambda>w. (wc_Request w, wc_Information w)) (Completed drv))
     (DriverHandle
        (VusbServerHandleUrbComplete ex_env (ex_server (ex_driver [ex_urb 7 1 10])) ex_client
           (VusbInitHeader VUSB_CMD_URB_COMPLETE 120 5)
           (ex_complete_payload @ replicate 16 0) 120)) = Some [(10, 100)]"
    apply (simp add: VusbServerHandleUrbComplete_def ex_complete_payload_fields Let_def
        ex_server_def ex_env_def sizeof_VUSB_URB_COMPLETE_def sizeof_VUSB_HEADER_def
        sizeof_VUSB_URB_COMPLETION_def VusbHandleCompleteUrb_def ex_find_7_one
        VusbCompleteUrb_completed)
    apply (simp add: ex_urb_def ex_driver_def VusbEvtDeviceAdd_context_def)
    done
  have b: "ue_TransferBufferLength (ex_urb 7 1 10) = 64" by (simp add: ex_urb_def)
  have c: "length ex_complete_payload = 120" by (simp add: ex_complete_payload_def put_le32_def)
  have d: "get_le32 (drop 12 ex_complete_payload) = 100"
    by (simp add: ex_complete_payload_def put_le32_def)
  from a b c d show ?thesis by simp
qed

section \<open>Detaching a device with pending URBs\<close>

lemma VusbDestroyVirtualDevice_urbs:
  "PendingUrbList (snd (VusbDestroyVirtualDevice ctx DeviceId)) = PendingUrbList ctx \<and>
   Completed (snd (VusbDestroyVirtualDevice ctx DeviceId)) = Completed ctx"
  by (simp add: VusbDestroyVirtualDevice_def Let_def split: option.splits)

lemma ex_attached_device:
  "Devices (ex_attached pending) 0 \<noteq> None \<and> PendingUrbList (ex_attached pending) = pending \<and>
   Completed (ex_attached pending) = []"
  by (simp add: ex_attached_def VusbCreateVirtualDevice_def VusbEvtDeviceAdd_context_def Let_def
      find_free_slot_empty VUSB_MAX_DEVICES_def)

lemma ex_detach_driver:
  "DriverHandle (fst (VusbServerHandleDeviceDetach ex_env (ex_server (ex_attached pending)) ex_owner
       (VusbInitHeader VUSB_CMD_DEVICE_DETACH 4 3) (put_le32 1 @ rest) 4)) =
     Some ((ex_attached pending)\<lparr>Devices := (Devices (ex_attached pending))(0 := None),
             DeviceCount := DeviceCount (ex_attached pending) - 1\<rparr>)"
proof -
  have g: "get_le32 (put_le32 1 @ rest) = 1" by (rule get_put_le32)
  obtain vdev where d: "Devices (ex_attached pending) 0 = Some vdev"
    using ex_attached_device [of pending] by auto
  have "VusbDestroyVirtualDevice (ex_attached pending) 1 =
      (STATUS_SUCCESS, (ex_attached pending)\<lparr>Devices := (Devices (ex_attached pending))(0 := None),
             DeviceCount := DeviceCount (ex_attached pending) - 1\<rparr>)"
    using d by (simp add: VusbDestroyVirtualDevice_def VUSB_MAX_DEVICES_def)
  then show ?thesis
    by (simp add: VusbServerHandleDeviceDetach_def g Let_def VusbServerUnplugDevice_def
        ex_server_def VusbHandleUnplugDevice_def)
qed

text \<open>
  Claim C3 on the code.  Device 1 is attached and URB 9 (request 10) is pending for it.
  After the server has handled \<^verbatim>\<open>DEVICE_DETACH\<close> for device 1, the device is gone from
  the registry, URB 9 is still in the pending list, no request has been completed, and a
  completion for URB 9 that arrives afterwards completes request 10.
\<close>

theorem detach_leaves_urbs_pending:
  "map_option
     (\<lambda>drv. (VusbFindDevice drv 1, map ue_UrbId (PendingUrbList drv), Completed drv,
             map (\<lambda>w. (wc_Request w, wc_Status w))
               (Completed (snd (VusbHandleCompleteUrb drv sizeof_VUSB_URB_COMPLETION
                                  (ex_completion 1 9 0) [])))))
     (DriverHandle
        (fst (VusbServerHandleDeviceDetach ex_env (ex_server (ex_attached [ex_urb 9 1 10]))
                ex_owner (VusbInitHeader VUSB_CMD_DEVICE_DETACH 4 3) (put_le32 1) 4))) =
   Some (None, [9], [], [(10, STATUS_SUCCESS)])"
proof -
  let ?a = "ex_attached [ex_urb 9 1 10]"
  let ?d = "?a\<lparr>Devices := (Devices ?a)(0 := None), DeviceCount := DeviceCount ?a - 1\<rparr>"
  have h: "DriverHandle
        (fst (VusbServerHandleDeviceDetach ex_env (ex_server ?a)
                ex_owner (VusbInitHeader VUSB_CMD_DEVICE_DETACH 4 3) (put_le32 1) 4)) = Some ?d"
    using ex_detach_driver [of "[ex_urb 9 1 10]" "[]"] by simp
  have f: "VusbFindDevice ?d 1 = None"
    by (simp add: VusbFindDevice_def VUSB_MAX_DEVICES_def)
  have p: "map ue_UrbId (PendingUrbList ?d) = [9]"
    using ex_attached_device [of "[ex_urb 9 1 10]"] by (simp add: ex_urb_def)
  have c: "Completed ?d = []"
    using ex_attached_device [of "[ex_urb 9 1 10]"] by simp
  have u: "VusbFindUrb ?d 9 =
      (Some (ex_urb 9 1 10), ?d\<lparr>PendingUrbList := [], PendingUrbCount := PendingUrbCount ?d - 1\<rparr>)"
    using ex_attached_device [of "[ex_urb 9 1 10]"]
    by (simp add: VusbFindUrb_def) (simp add: ex_urb_def)
  have l: "map (\<lambda>w. (wc_Request w, wc_Status w))
               (Completed (snd (VusbHandleCompleteUrb ?d sizeof_VUSB_URB_COMPLETION
                                  (ex_completion 1 9 0) []))) = [(10, STATUS_SUCCESS)]"
    using u c
    by (simp add: VusbHandleCompleteUrb_def ex_completion_def Let_def VusbCompleteUrb_completed
        VUSB_STATUS_SUCCESS_def)
       (simp add: ex_urb_def)
  from h f p c l show ?thesis by simp
qed

section \<open>The data block of a submitted URB\<close>

lemma length_VUSB_SETUP_PACKET_bytes: "length (VUSB_SETUP_PACKET_bytes p) = 8"
  by (simp add: VUSB_SETUP_PACKET_bytes_def length_put_le16)

lemma length_VUSB_URB_SUBMIT_bytes: "length (VUSB_URB_SUBMIT_bytes submit) = 48"
  by (simp add: VUSB_URB_SUBMIT_bytes_def length_VUSB_HEADER_bytes length_put_le32
      length_VUSB_SETUP_PACKET_bytes)

lemma VUSB_HEADER_of_VUSB_URB_SUBMIT_bytes:
  "VUSB_HEADER_of_bytes (VUSB_URB_SUBMIT_bytes submit @ bs) = us_Header submit"
  unfolding VUSB_URB_SUBMIT_bytes_def append_assoc by (rule VUSB_HEADER_of_bytes_bytes)

lemma VUSB_HEADER_of_VUSB_URB_SUBMIT_bytes_only:
  "VUSB_HEADER_of_bytes (VUSB_URB_SUBMIT_bytes submit) = us_Header submit"
  using VUSB_HEADER_of_VUSB_URB_SUBMIT_bytes [of submit "[]"] by simp

lemma ServerUrbForward_sent:
  assumes "ServerUrbFindClientForDevice ctx (pu_DeviceId pendingUrb) = Some client"
  shows "fst (snd (snd (ServerUrbForward ctx pendingUrb data True calloc_ok sent))) =
         Some (client,
               VUSB_URB_SUBMIT_bytes
                 \<lparr>us_Header = VusbInitHeader VUSB_CMD_SUBMIT_URB
                      (of_nat (sizeof_VUSB_URB_SUBMIT +
                         (if pu_Direction pendingUrb = VUSB_DIR_OUT \<and>
                             pu_TransferBufferLength pendingUrb > 0
                          then unat (pu_TransferBufferLength pendingUrb) else 0) -
                         sizeof_VUSB_HEADER))
                      (pu_SequenceNumber pendingUrb),
                  us_DeviceId = pu_DeviceId pendingUrb, us_UrbId = pu_UrbId pendingUrb,
                  us_EndpointAddress = pu_EndpointAddress pendingUrb,
                  us_TransferType = pu_TransferType pendingUrb,
                  us_Direction = pu_Direction pendingUrb, us_Reserved = 0,
                  us_TransferFlags = pu_TransferFlags pendingUrb,
                  us_TransferBufferLength = pu_TransferBufferLength pendingUrb,
                  us_Interval = pu_Interval pendingUrb,
                  us_SetupPacket = pu_SetupPacket pendingUrb\<rparr> @
               (if pu_Direction pendingUrb = VUSB_DIR_OUT \<and>
                   pu_TransferBufferLength pendingUrb > 0
                then take (unat (pu_TransferBufferLength pendingUrb)) data else []))"
  using assms by (simp add: ServerUrbForward_def Let_def)

lemma VusbUrbBuildPendingResponse_size:
  "fst (snd (VusbUrbBuildPendingResponse Entry BufferSize behind)) =
   of_nat sizeof_VUSB_PENDING_URB +
   (if ue_Direction Entry = VUSB_DIR_OUT \<and> ue_TransferBufferLength Entry > 0
    then ue_TransferBufferLength Entry else 0)"
  by (simp add: VusbUrbBuildPendingResponse_def Let_def)

text \<open>
  Claim C6.  When a connected client owns the device and the memory behind the pending URB
  holds at least \<^verbatim>\<open>TransferBufferLength\<close> bytes, \<^verbatim>\<open>ServerUrbForward\<close> hands one
  \<^verbatim>\<open>SUBMIT_URB\<close> frame to \<^verbatim>\<open>send\<close>.  If the direction is OUT and the buffer length is
  positive, the frame is the 48 bytes of the structure followed by exactly
  \<^verbatim>\<open>TransferBufferLength\<close> data bytes, a block that is not empty, and its header declares
  32 plus that length; otherwise the frame is the 48 bytes of the structure alone and its
  header declares 32.
\<close>

theorem submit_frame_data_block:
  assumes client: "ServerUrbFindClientForDevice ctx (pu_DeviceId pendingUrb) = Some client"
    and data: "unat (pu_TransferBufferLength pendingUrb) \<le> length data"
  shows "\<exists>frame.
           fst (snd (snd (ServerUrbForward ctx pendingUrb data True calloc_ok sent))) =
             Some (client, frame) \<and>
           Command (VUSB_HEADER_of_bytes frame) = VUSB_CMD_SUBMIT_URB \<and>
           (if pu_Direction pendingUrb = VUSB_DIR_OUT \<and> pu_TransferBufferLength pendingUrb > 0
            then length frame =
                   sizeof_VUSB_URB_SUBMIT + unat (pu_TransferBufferLength pendingUrb) \<and>
                 drop sizeof_VUSB_URB_SUBMIT frame =
                   take (unat (pu_TransferBufferLength pendingUrb)) data \<and>
                 drop sizeof_VUSB_URB_SUBMIT frame \<noteq> [] \<and>
                 Length (VUSB_HEADER_of_bytes frame) =
                   of_nat (sizeof_VUSB_URB_SUBMIT - sizeof_VUSB_HEADER) +
                   pu_TransferBufferLength pendingUrb
            else length frame = sizeof_VUSB_URB_SUBMIT \<and>
                 drop sizeof_VUSB_URB_SUBMIT frame = [] \<and>
                 Length (VUSB_HEADER_of_bytes frame) =
                   of_nat (sizeof_VUSB_URB_SUBMIT - sizeof_VUSB_HEADER))"
proof (cases "pu_Direction pendingUrb = VUSB_DIR_OUT \<and> pu_TransferBufferLength pendingUrb > 0")
  case True
  have pos: "0 < unat (pu_TransferBufferLength pendingUrb)"
    using True by (simp add: word_less_nat_alt)
  have ne: "take (unat (pu_TransferBufferLength pendingUrb)) data \<noteq> []"
    using pos data by auto
  have len: "length (take (unat (pu_TransferBufferLength pendingUrb)) data) =
             unat (pu_TransferBufferLength pendingUrb)"
    using data by simp
  show ?thesis
    unfolding ServerUrbForward_sent [OF client] if_P [OF True]
    using ne len
    by (simp add: length_VUSB_URB_SUBMIT_bytes VUSB_HEADER_of_VUSB_URB_SUBMIT_bytes
        sizeof_VUSB_URB_SUBMIT_def sizeof_VUSB_HEADER_def VusbInitHeader_def)
next
  case False
  show ?thesis
    unfolding ServerUrbForward_sent [OF client] if_not_P [OF False]
    by (simp add: length_VUSB_URB_SUBMIT_bytes VUSB_HEADER_of_VUSB_URB_SUBMIT_bytes_only
        sizeof_VUSB_URB_SUBMIT_def sizeof_VUSB_HEADER_def VusbInitHeader_def)
qed

lemma ex_forwarder_owned_client:
  "ServerUrbFindClientForDevice ex_forwarder_owned 1 = Some 0"
  by (simp add: ServerUrbFindClientForDevice_def ex_forwarder_owned_def ex_owner_def
      ex_client_def client_owns_def VUSB_MAX_DEVICES_def)

theorem submit_frame_data_block_witness:
  "(\<exists>frame.
      fst (snd (snd (ServerUrbForward ex_forwarder_owned (ex_pending_urb VUSB_DIR_IN 64)
                       (replicate 64 0) True True 48))) = Some (0, frame) \<and>
      length frame = 48 \<and> Length (VUSB_HEADER_of_bytes frame) = 32) \<and>
   (\<exists>frame.
      fst (snd (snd (ServerUrbForward ex_forwarder_owned (ex_pending_urb VUSB_DIR_OUT 64)
                       (replicate 64 0) True True 112))) = Some (0, frame) \<and>
      length frame = 112 \<and> drop 48 frame = replicate 64 0 \<and>
      Length (VUSB_HEADER_of_bytes frame) = 96)"
proof -
  have c: "ServerUrbFindClientForDevice ex_forwarder_owned
             (pu_DeviceId (ex_pending_urb d 64)) = Some 0" for d
    by (simp add: ex_pending_urb_def ex_forwarder_owned_client)
  have l: "unat (pu_TransferBufferLength (ex_pending_urb d 64)) \<le>
           length (replicate 64 (0 :: 8 word))" for d
    by (simp add: ex_pending_urb_def)
  have i: "\<not> (pu_Direction (ex_pending_urb VUSB_DIR_IN 64) = VUSB_DIR_OUT \<and>
              pu_TransferBufferLength (ex_pending_urb VUSB_DIR_IN 64) > 0)"
    by (simp add: ex_pending_urb_def VUSB_DIR_IN_def VUSB_DIR_OUT_def)
  have out: "pu_Direction (ex_pending_urb VUSB_DIR_OUT 64) = VUSB_DIR_OUT \<and>
           pu_TransferBufferLength (ex_pending_urb VUSB_DIR_OUT 64) > 0"
    by (simp add: ex_pending_urb_def)
  have n: "unat (pu_TransferBufferLength (ex_pending_urb VUSB_DIR_OUT 64)) = 64"
    by (simp add: ex_pending_urb_def)
  have n': "pu_TransferBufferLength (ex_pending_urb VUSB_DIR_OUT 64) = 64"
    by (simp add: ex_pending_urb_def)
  have t: "take 64 (replicate 64 (0 :: 8 word)) = replicate 64 0"
    by (simp only: take_replicate min.idem)
  have e: "of_nat (48 - 16) = (32 :: 32 word)" "32 + 64 = (96 :: 32 word)"
    "48 + 64 = (112 :: nat)"
    by simp_all
  note a = submit_frame_data_block [where calloc_ok = True and sent = 48, OF c l,
      of VUSB_DIR_IN, unfolded if_not_P [OF i] sizeof_VUSB_URB_SUBMIT_def
      sizeof_VUSB_HEADER_def e]
  note b0 = submit_frame_data_block [where calloc_ok = True and sent = 112, OF c l,
      of VUSB_DIR_OUT, unfolded if_P [OF out] n]
  note b = b0 [unfolded n' t sizeof_VUSB_URB_SUBMIT_def sizeof_VUSB_HEADER_def e]
  have "\<exists>frame.
      fst (snd (snd (ServerUrbForward ex_forwarder_owned (ex_pending_urb VUSB_DIR_IN 64)
                       (replicate 64 0) True True 48))) = Some (0, frame) \<and>
      length frame = 48 \<and> Length (VUSB_HEADER_of_bytes frame) = 32"
    (is "\<exists>frame. ?A frame")
  proof -
    from a obtain f where
      "fst (snd (snd (ServerUrbForward ex_forwarder_owned (ex_pending_urb VUSB_DIR_IN 64)
                        (replicate 64 0) True True 48))) = Some (0, f) \<and>
       Command (VUSB_HEADER_of_bytes f) = VUSB_CMD_SUBMIT_URB \<and>
       length f = 48 \<and> drop 48 f = [] \<and> Length (VUSB_HEADER_of_bytes f) = 32" ..
    then have "?A f" by simp
    then show ?thesis ..
  qed
  moreover have "\<exists>frame.
      fst (snd (snd (ServerUrbForward ex_forwarder_owned (ex_pending_urb VUSB_DIR_OUT 64)
                       (replicate 64 0) True True 112))) = Some (0, frame) \<and>
      length frame = 112 \<and> drop 48 frame = replicate 64 0 \<and>
      Length (VUSB_HEADER_of_bytes frame) = 96"
    (is "\<exists>frame. ?B frame")
  proof -
    from b obtain g where
      "fst (snd (snd (ServerUrbForward ex_forwarder_owned (ex_pending_urb VUSB_DIR_OUT 64)
                        (replicate 64 0) True True 112))) = Some (0, g) \<and>
       Command (VUSB_HEADER_of_bytes g) = VUSB_CMD_SUBMIT_URB \<and>
       length g = 112 \<and> drop 48 g = replicate 64 0 \<and> drop 48 g \<noteq> [] \<and>
       Length (VUSB_HEADER_of_bytes g) = 96" ..
    then have "?B g" by simp
    then show ?thesis ..
  qed
  ultimately show ?thesis by (rule conjI)
qed

section \<open>Sequence numbers of responses\<close>














section \<open>Framing errors in the receive loops\<close>

lemma recv_frame_invalid:
  assumes "\<not> VusbValidateHeader header"
  shows "recv_frame lim (VUSB_HEADER_bytes header @ rest) = InvalidHeader rest"
proof -
  have tk: "take sizeof_VUSB_HEADER (VUSB_HEADER_bytes header @ rest) = VUSB_HEADER_bytes header"
    by (simp add: sizeof_VUSB_HEADER_def length_VUSB_HEADER_bytes)
  have dr: "drop sizeof_VUSB_HEADER (VUSB_HEADER_bytes header @ rest) = rest"
    by (simp add: sizeof_VUSB_HEADER_def length_VUSB_HEADER_bytes)
  have h: "VUSB_HEADER_of_bytes (VUSB_HEADER_bytes header) = header"
    using VUSB_HEADER_of_bytes_bytes [of header "[]"] by simp
  have len: "\<not> length (VUSB_HEADER_bytes header @ rest) < sizeof_VUSB_HEADER"
    by (simp add: sizeof_VUSB_HEADER_def length_VUSB_HEADER_bytes)
  show ?thesis
    unfolding recv_frame_def Let_def tk dr h using assms len by simp
qed

lemma recv_frame_too_large:
  assumes "VusbValidateHeader header" and "lim < unat (Length header)"
  shows "recv_frame lim (VUSB_HEADER_bytes header @ rest) = PayloadTooLarge"
proof -
  have tk: "take sizeof_VUSB_HEADER (VUSB_HEADER_bytes header @ rest) = VUSB_HEADER_bytes header"
    by (simp add: sizeof_VUSB_HEADER_def length_VUSB_HEADER_bytes)
  have h: "VUSB_HEADER_of_bytes (VUSB_HEADER_bytes header) = header"
    using VUSB_HEADER_of_bytes_bytes [of header "[]"] by simp
  have len: "\<not> length (VUSB_HEADER_bytes header @ rest) < sizeof_VUSB_HEADER"
    by (simp add: sizeof_VUSB_HEADER_def length_VUSB_HEADER_bytes)
  have pos: "Length header > 0"
    using assms(2) by (simp add: word_less_nat_alt)
  show ?thesis
    unfolding recv_frame_def Let_def tk h using assms len pos by simp
qed

lemma VusbClientThread_loop_invalid_header:
  assumes "\<not> VusbValidateHeader header"
  shows "VusbClientThread_loop env ctx client buffer (VUSB_HEADER_bytes header @ rest) =
         (ctx, client, [])"
  by (subst VusbClientThread_loop.simps)
     (simp add: server_recv_frame_def recv_frame_invalid [OF assms])

lemma VusbClientThread_loop_too_large:
  assumes "VusbValidateHeader header"
    and "VUSB_MAX_PACKET_SIZE - sizeof_VUSB_HEADER < unat (Length header)"
  shows "VusbClientThread_loop env ctx client buffer (VUSB_HEADER_bytes header @ rest) =
         (ctx, client, [])"
  by (subst VusbClientThread_loop.simps)
     (simp add: server_recv_frame_def recv_frame_too_large [OF assms])

lemma ReceiveThread_loop_too_large:
  assumes "VusbValidateHeader header" and "VUSB_MAX_PACKET_SIZE < unat (Length header)"
  shows "ReceiveThread_loop env be ctx payload (VUSB_HEADER_bytes header @ rest) = (ctx, [])"
  by (subst ReceiveThread_loop.simps)
     (simp add: client_recv_frame_def recv_frame_too_large [OF assms])

lemma ReceiveThread_loop_invalid_header:
  assumes "cl_Connected ctx" and "\<not> VusbValidateHeader header"
  shows "ReceiveThread_loop env be ctx payload (VUSB_HEADER_bytes header @ rest) =
         ReceiveThread_loop env be ctx payload rest"
  by (subst ReceiveThread_loop.simps)
     (simp add: client_recv_frame_def recv_frame_invalid [OF assms(2)] assms(1))

lemma ReceiveThread_loop_end:
  "ReceiveThread_loop env be ctx payload [] = (ctx, [])"
  by (subst ReceiveThread_loop.simps)
     (simp add: client_recv_frame_def recv_frame_def sizeof_VUSB_HEADER_def)

lemma ReceiveThread_loop_ping:
  assumes "cl_Connected ctx"
  shows "ReceiveThread_loop env be ctx payload (frame_bytes (VusbInitHeader VUSB_CMD_PING 0 s) []) =
         (ctx\<lparr>cl_Sent := cl_Sent ctx @ [frame_bytes (VusbInitHeader VUSB_CMD_PONG 0 s) []]\<rparr>,
          [(VusbInitHeader VUSB_CMD_PING 0 s, [])])"
proof -
  let ?h = "VusbInitHeader VUSB_CMD_PING 0 s"
  have r: "client_recv_frame (frame_bytes ?h [] @ []) = Frame ?h [] []"
    unfolding client_recv_frame_def
    by (rule recv_frame_frame_bytes)
       (simp_all add: VusbValidateHeader_VusbInitHeader, simp_all add: VusbInitHeader_def)
  have p: "ProcessServerMessage env be ctx ?h (recv_into payload []) (unat (Length ?h)) =
           ctx\<lparr>cl_Sent := cl_Sent ctx @ [frame_bytes (VusbInitHeader VUSB_CMD_PONG 0 s) []]\<rparr>"
    by (simp add: ProcessServerMessage_def VusbInitHeader_def)
  show ?thesis
    apply (subst ReceiveThread_loop.simps)
    using r assms
    apply (simp add: p)
    apply (simp add: ReceiveThread_loop_end)
    done
qed

lemma ReceiveThread_loop_frame:
  assumes "cl_Connected ctx" and "VusbValidateHeader header"
    and "length received = unat (Length header)"
    and "unat (Length header) \<le> VUSB_MAX_PACKET_SIZE"
  shows "snd (ReceiveThread_loop env be ctx payload (frame_bytes header received @ rest)) =
         (header, received) #
         snd (ReceiveThread_loop env be
                (ProcessServerMessage env be ctx header (recv_into payload received)
                   (unat (Length header)))
                (recv_into payload received) rest)"
proof -
  have r: "client_recv_frame (frame_bytes header received @ rest) = Frame header received rest"
    unfolding client_recv_frame_def using assms(2-4) by (rule recv_frame_frame_bytes)
  show ?thesis
    by (subst ReceiveThread_loop.simps) (simp add: r assms(1) split: prod.split)
qed

text \<open>
  Claim C8 on the code.  The socket delivers sixteen bytes with a wrong magic number and then
  a \<^verbatim>\<open>PING\<close> frame.  The server's receive thread dispatches nothing.  The client's
  receive thread dispatches the \<^verbatim>\<open>PING\<close> that follows the invalid header and answers it
  with a \<^verbatim>\<open>PONG\<close>.
\<close>

theorem client_continues_after_invalid_header:
  "\<not> VusbValidateHeader (VUSB_HEADER_of_bytes ex_bad_header) \<and>
   snd (snd (VusbClientThread ex_env (ex_server (ex_driver [])) ex_client
               (ex_bad_header @ ex_ping_frame))) = [] \<and>
   snd (ReceiveThread ex_env ex_backend ex_client_ctx (ex_bad_header @ ex_ping_frame)) =
     [(VusbInitHeader VUSB_CMD_PING 0 9, [])] \<and>
   cl_Sent (fst (ReceiveThread ex_env ex_backend ex_client_ctx (ex_bad_header @ ex_ping_frame))) =
     [frame_bytes (VusbInitHeader VUSB_CMD_PONG 0 9) []]"
proof -
  let ?bad = "\<lparr>Magic = 0, Version = VUSB_PROTOCOL_VERSION, Command = VUSB_CMD_PING,
               Length = 0, Sequence = 8\<rparr>"
  have v: "\<not> VusbValidateHeader ?bad"
    by (simp add: VusbValidateHeader_def VUSB_PROTOCOL_MAGIC_def)
  have h: "VUSB_HEADER_of_bytes ex_bad_header = ?bad"
    using VUSB_HEADER_of_bytes_bytes [of ?bad "[]"] by (simp add: ex_bad_header_def)
  have c: "cl_Connected ex_client_ctx"
    by (simp add: ex_client_ctx_def)
  have s: "VusbClientThread ex_env (ex_server (ex_driver [])) ex_client
             (ex_bad_header @ ex_ping_frame) =
           (ex_server (ex_driver []), ex_client\<lparr>Connected := False\<rparr>, [])"
    unfolding VusbClientThread_def ex_bad_header_def VusbClientThread_loop_invalid_header [OF v]
    by (simp add: ex_env_def)
  have r: "ReceiveThread ex_env ex_backend ex_client_ctx (ex_bad_header @ ex_ping_frame) =
           (ex_client_ctx\<lparr>cl_Sent := cl_Sent ex_client_ctx @
                            [frame_bytes (VusbInitHeader VUSB_CMD_PONG 0 9) []],
                          cl_Connected := False\<rparr>,
            [(VusbInitHeader VUSB_CMD_PING 0 9, [])])"
    unfolding ReceiveThread_def ex_bad_header_def ex_ping_frame_def
      ReceiveThread_loop_invalid_header [OF c v] ReceiveThread_loop_ping [OF c]
    by (simp add: ex_env_def)
  show ?thesis
    unfolding s r h using v by (simp add: ex_client_ctx_def)
qed

section \<open>Reading a submitted URB from its frame\<close>

lemma VUSB_URB_SUBMIT_of_bytes_bytes:
  "VUSB_URB_SUBMIT_of_bytes (VUSB_URB_SUBMIT_bytes submit @ rest) = submit"
proof -
  let ?m = "VUSB_URB_SUBMIT_bytes submit @ rest"
  have h: "VUSB_HEADER_of_bytes ?m = us_Header submit"
    by (rule VUSB_HEADER_of_VUSB_URB_SUBMIT_bytes)
  have d: "drop 16 ?m =
      put_le32 (us_DeviceId submit) @ put_le32 (us_UrbId submit) @
      [us_EndpointAddress submit, us_TransferType submit, us_Direction submit,
       us_Reserved submit] @
      put_le32 (us_TransferFlags submit) @ put_le32 (us_TransferBufferLength submit) @
      put_le32 (us_Interval submit) @ VUSB_SETUP_PACKET_bytes (us_SetupPacket submit) @ rest"
    by (simp add: VUSB_URB_SUBMIT_bytes_def length_VUSB_HEADER_bytes)
  have o: "drop 20 ?m = drop 4 (drop 16 ?m)" "drop 24 ?m = drop 8 (drop 16 ?m)"
    "drop 25 ?m = drop 9 (drop 16 ?m)" "drop 26 ?m = drop 10 (drop 16 ?m)"
    "drop 27 ?m = drop 11 (drop 16 ?m)" "drop 28 ?m = drop 12 (drop 16 ?m)"
    "drop 32 ?m = drop 16 (drop 16 ?m)" "drop 36 ?m = drop 20 (drop 16 ?m)"
    "drop 40 ?m = drop 24 (drop 16 ?m)" "drop 41 ?m = drop 25 (drop 16 ?m)"
    "drop 42 ?m = drop 26 (drop 16 ?m)" "drop 44 ?m = drop 28 (drop 16 ?m)"
    "drop 46 ?m = drop 30 (drop 16 ?m)"
    by (simp_all only: drop_drop) simp_all
  have f1: "get_le32 (drop 16 ?m) = us_DeviceId submit"
    unfolding d by (rule get_put_le32)
  have f2: "get_le32 (drop 20 ?m) = us_UrbId submit"
    unfolding o d by (simp add: length_put_le32 get_put_le32)
  have f3: "get_u8 (drop 24 ?m) = us_EndpointAddress submit"
    "get_u8 (drop 25 ?m) = us_TransferType submit"
    "get_u8 (drop 26 ?m) = us_Direction submit"
    "get_u8 (drop 27 ?m) = us_Reserved submit"
    unfolding o d by (simp_all add: length_put_le32)
  have f4: "get_le32 (drop 28 ?m) = us_TransferFlags submit"
    "get_le32 (drop 32 ?m) = us_TransferBufferLength submit"
    "get_le32 (drop 36 ?m) = us_Interval submit"
    unfolding o d by (simp_all add: length_put_le32 get_put_le32)
  have f5: "get_u8 (drop 40 ?m) = bmRequestType (us_SetupPacket submit)"
    "get_u8 (drop 41 ?m) = bRequest (us_SetupPacket submit)"
    "get_le16 (drop 42 ?m) = wValue (us_SetupPacket submit)"
    "get_le16 (drop 44 ?m) = wIndex (us_SetupPacket submit)"
    "get_le16 (drop 46 ?m) = wLength (us_SetupPacket submit)"
    unfolding o d
    by (simp_all add: length_put_le32 length_put_le16 get_put_le16 VUSB_SETUP_PACKET_bytes_def)
  show ?thesis
    unfolding VUSB_URB_SUBMIT_of_bytes_def h f1 f2 f3 f4 f5 by simp
qed

lemma VUSB_URB_SUBMIT_of_payload:
  "us_DeviceId (VUSB_URB_SUBMIT_of_bytes
                 (drop sizeof_VUSB_HEADER (VUSB_URB_SUBMIT_bytes submit) @ rest)) =
     us_TransferBufferLength submit \<and>
   us_UrbId (VUSB_URB_SUBMIT_of_bytes
               (drop sizeof_VUSB_HEADER (VUSB_URB_SUBMIT_bytes submit) @ rest)) =
     us_Interval submit"
proof -
  let ?p = "drop sizeof_VUSB_HEADER (VUSB_URB_SUBMIT_bytes submit) @ rest"
  have d: "?p =
      put_le32 (us_DeviceId submit) @ put_le32 (us_UrbId submit) @
      [us_EndpointAddress submit, us_TransferType submit, us_Direction submit,
       us_Reserved submit] @
      put_le32 (us_TransferFlags submit) @ put_le32 (us_TransferBufferLength submit) @
      put_le32 (us_Interval submit) @ VUSB_SETUP_PACKET_bytes (us_SetupPacket submit) @ rest"
    by (simp add: VUSB_URB_SUBMIT_bytes_def length_VUSB_HEADER_bytes sizeof_VUSB_HEADER_def)
  have a: "get_le32 (drop 16 ?p) = us_TransferBufferLength submit"
    unfolding d by (simp add: length_put_le32 get_put_le32)
  have b: "get_le32 (drop 20 ?p) = us_Interval submit"
    unfolding d by (simp add: length_put_le32 get_put_le32)
  show ?thesis
    unfolding VUSB_URB_SUBMIT_of_bytes_def using a b by simp
qed

lemma ProcessServerMessage_no_device:
  assumes "Command header = VUSB_CMD_SUBMIT_URB"
    and "sizeof_VUSB_URB_SUBMIT - sizeof_VUSB_HEADER \<le> n"
    and "UsbCaptureFindDevice ctx (us_DeviceId (VUSB_URB_SUBMIT_of_bytes payload)) = None"
  shows "ProcessServerMessage env be ctx header payload n =
         snd (SendUrbCompletion env ctx (us_DeviceId (VUSB_URB_SUBMIT_of_bytes payload))
                (us_UrbId (VUSB_URB_SUBMIT_of_bytes payload)) VUSB_STATUS_NO_DEVICE 0 None)"
proof -
  have c: "snd (ClientUrbProcess env be ctx (VUSB_URB_SUBMIT_of_bytes payload) outData len) =
           snd (SendUrbCompletion env ctx (us_DeviceId (VUSB_URB_SUBMIT_of_bytes payload))
                  (us_UrbId (VUSB_URB_SUBMIT_of_bytes payload)) VUSB_STATUS_NO_DEVICE 0 None)"
    for outData len
    by (simp add: ClientUrbProcess_def assms(3))
  have p: "Command header \<noteq> VUSB_CMD_PING"
    using assms(1) by (simp add: VUSB_CMD_PING_def VUSB_CMD_SUBMIT_URB_def)
  show ?thesis
    unfolding ProcessServerMessage_def Let_def c using assms(1,2) p by simp
qed

lemma ReceiveThread_loop_single:
  assumes "cl_Connected ctx" and "VusbValidateHeader header"
    and "length received = unat (Length header)"
    and "unat (Length header) \<le> VUSB_MAX_PACKET_SIZE"
  shows "ReceiveThread_loop env be ctx payload (frame_bytes header received) =
         (ProcessServerMessage env be ctx header (recv_into payload received)
            (unat (Length header)),
          [(header, received)])"
proof -
  have r: "client_recv_frame (frame_bytes header received @ []) = Frame header received []"
    unfolding client_recv_frame_def using assms(2-4) by (rule recv_frame_frame_bytes)
  show ?thesis
    apply (subst ReceiveThread_loop.simps)
    using r assms(1)
    apply (simp add: ReceiveThread_loop_end)
    done
qed

text \<open>
  Claim C1 on the code.  For the pending URB 7 of device 1 (endpoint 0x81, bulk, IN,
  64 bytes, sequence number 3) \<^verbatim>\<open>ServerUrbForward\<close> sends the 48 bytes
  \<open>ex_submit_frame\<close>.  The client's receive step accepts them and returns the header with
  magic 0x56555342, version 0x0100, command 0x0020, length 32 and sequence number 3, and
  the 32 payload bytes; read as a \<^verbatim>\<open>VUSB_URB_SUBMIT\<close> from their first byte they give back
  every field of the request.  The client has captured device 1, but \<^verbatim>\<open>ReceiveThread\<close>
  answers the frame with one \<^verbatim>\<open>URB_COMPLETE\<close> for device 64 and URB 0 with status
  \<^verbatim>\<open>VUSB_STATUS_NO_DEVICE\<close>: \<^verbatim>\<open>ProcessServerMessage\<close> reads the structure through
  \<^verbatim>\<open>(VUSB_URB_SUBMIT*)payload\<close>, sixteen bytes behind its place, so that the device id is
  taken from the buffer length and the URB id from the interval.
\<close>

theorem submit_urb_read_behind_header:
  "fst (snd (snd (ServerUrbForward ex_forwarder_owned (ex_pending_urb VUSB_DIR_IN 64) []
                    True True 48))) = Some (0, ex_submit_frame) \<and>
   client_recv_frame ex_submit_frame =
     Frame \<lparr>Magic = 0x56555342, Version = 0x0100, Command = 0x0020, Length = 32, Sequence = 3\<rparr>
       (drop 16 ex_submit_frame) [] \<and>
   VUSB_URB_SUBMIT_of_bytes ex_submit_frame =
     \<lparr>us_Header = \<lparr>Magic = 0x56555342, Version = 0x0100, Command = 0x0020, Length = 32,
                    Sequence = 3\<rparr>,
      us_DeviceId = 1, us_UrbId = 7, us_EndpointAddress = 0x81, us_TransferType = 2,
      us_Direction = 1, us_Reserved = 0, us_TransferFlags = 0, us_TransferBufferLength = 64,
      us_Interval = 0,
      us_SetupPacket = \<lparr>bmRequestType = 0, bRequest = 0, wValue = 0, wIndex = 0,
                         wLength = 0\<rparr>\<rparr> \<and>
   UsbCaptureFindDevice ex_client_captured 1 = Some 0 \<and>
   cl_Sent (fst (ReceiveThread ex_env ex_backend ex_client_captured ex_submit_frame)) =
     [[0x42, 0x53, 0x55, 0x56,  0x00, 0x01,  0x21, 0x00,  20, 0, 0, 0,  6, 0, 0, 0,
       64, 0, 0, 0,  0, 0, 0, 0,  6, 0, 0, 0,  0, 0, 0, 0,  0, 0, 0, 0]]"
proof -
  let ?h = "\<lparr>Magic = 0x56555342, Version = 0x0100, Command = 0x0020, Length = 32,
             Sequence = 3\<rparr> :: VUSB_HEADER"
  let ?p = "drop 16 ex_submit_frame"
  have c: "ServerUrbFindClientForDevice ex_forwarder_owned
             (pu_DeviceId (ex_pending_urb VUSB_DIR_IN 64)) = Some 0"
    by (simp add: ex_pending_urb_def ex_forwarder_owned_client)
  have a: "fst (snd (snd (ServerUrbForward ex_forwarder_owned (ex_pending_urb VUSB_DIR_IN 64) []
                    True True 48))) = Some (0, ex_submit_frame)"
    unfolding ServerUrbForward_sent [OF c]
    by (simp add: ex_pending_urb_def VUSB_URB_SUBMIT_bytes_def VUSB_SETUP_PACKET_bytes_def
      VUSB_HEADER_bytes_def VusbInitHeader_def put_le32_def put_le16_def
      VUSB_PROTOCOL_MAGIC_def VUSB_PROTOCOL_VERSION_def VUSB_CMD_SUBMIT_URB_def
      ex_submit_frame_def VUSB_DIR_IN_def VUSB_DIR_OUT_def VUSB_TRANSFER_BULK_def
      sizeof_VUSB_URB_SUBMIT_def sizeof_VUSB_HEADER_def)
  have f: "ex_submit_frame = frame_bytes ?h ?p"
    by (simp add: frame_bytes_def VUSB_HEADER_bytes_def put_le32_def put_le16_def
        ex_submit_frame_def)
  have v: "VusbValidateHeader ?h"
    by (simp add: VusbValidateHeader_def VUSB_PROTOCOL_MAGIC_def VUSB_PROTOCOL_VERSION_def)
  have l: "length ?p = unat (Length ?h)"
    by (simp add: ex_submit_frame_def)
  have m: "unat (Length ?h) \<le> VUSB_MAX_PACKET_SIZE"
    by (simp add: VUSB_MAX_PACKET_SIZE_def)
  have r: "client_recv_frame ex_submit_frame = Frame ?h ?p []"
    using recv_frame_frame_bytes [OF v l m, of "[]"]
    by (simp add: client_recv_frame_def f [symmetric])
  have s: "VUSB_URB_SUBMIT_of_bytes ex_submit_frame =
     \<lparr>us_Header = ?h,
      us_DeviceId = 1, us_UrbId = 7, us_EndpointAddress = 0x81, us_TransferType = 2,
      us_Direction = 1, us_Reserved = 0, us_TransferFlags = 0, us_TransferBufferLength = 64,
      us_Interval = 0,
      us_SetupPacket = \<lparr>bmRequestType = 0, bRequest = 0, wValue = 0, wIndex = 0,
                         wLength = 0\<rparr>\<rparr>"
    by (simp add: VUSB_URB_SUBMIT_of_bytes_def VUSB_HEADER_of_bytes_def ex_submit_frame_def)
  have d: "UsbCaptureFindDevice ex_client_captured 1 = Some 0"
    by (simp add: UsbCaptureFindDevice_def ex_client_captured_def MAX_USB_DEVICES_def)
  have k: "cl_Connected ex_client_captured"
    by (simp add: ex_client_captured_def)
  have i: "us_DeviceId (VUSB_URB_SUBMIT_of_bytes (recv_into buffer ?p)) = 64 \<and>
           us_UrbId (VUSB_URB_SUBMIT_of_bytes (recv_into buffer ?p)) = 0" for buffer
    by (simp add: recv_into_def VUSB_URB_SUBMIT_of_bytes_def ex_submit_frame_def)
  have n: "UsbCaptureFindDevice ex_client_captured 64 = None"
    by (simp add: UsbCaptureFindDevice_def ex_client_captured_def MAX_USB_DEVICES_def)
  have cmd: "Command ?h = VUSB_CMD_SUBMIT_URB"
    by (simp add: VUSB_CMD_SUBMIT_URB_def)
  have sz: "sizeof_VUSB_URB_SUBMIT - sizeof_VUSB_HEADER \<le> unat (Length ?h)"
    by (simp add: sizeof_VUSB_URB_SUBMIT_def sizeof_VUSB_HEADER_def)
  have pm: "ProcessServerMessage ex_env ex_backend ex_client_captured ?h (recv_into buffer ?p)
              (unat (Length ?h)) =
            snd (SendUrbCompletion ex_env ex_client_captured 64 0 VUSB_STATUS_NO_DEVICE 0 None)"
    for buffer
    using ProcessServerMessage_no_device [OF cmd sz, of ex_client_captured "recv_into buffer ?p"
        ex_env ex_backend] i [of buffer] n
    by simp
  have sent: "cl_Sent (snd (SendUrbCompletion ex_env ex_client_captured 64 0
                              VUSB_STATUS_NO_DEVICE 0 None)) =
     [[0x42, 0x53, 0x55, 0x56,  0x00, 0x01,  0x21, 0x00,  20, 0, 0, 0,  6, 0, 0, 0,
       64, 0, 0, 0,  0, 0, 0, 0,  6, 0, 0, 0,  0, 0, 0, 0,  0, 0, 0, 0]]"
    by (simp add: SendUrbCompletion_def Let_def ex_env_def ex_client_captured_def
        frame_bytes_def VUSB_HEADER_bytes_def VusbInitHeader_def put_le32_def put_le16_def
        VUSB_PROTOCOL_MAGIC_def VUSB_PROTOCOL_VERSION_def VUSB_CMD_URB_COMPLETE_def
        VUSB_STATUS_NO_DEVICE_def sizeof_VUSB_URB_COMPLETE_def sizeof_VUSB_HEADER_def)
  have t: "cl_Sent (fst (ReceiveThread ex_env ex_backend ex_client_captured ex_submit_frame)) =
     [[0x42, 0x53, 0x55, 0x56,  0x00, 0x01,  0x21, 0x00,  20, 0, 0, 0,  6, 0, 0, 0,
       64, 0, 0, 0,  0, 0, 0, 0,  6, 0, 0, 0,  0, 0, 0, 0,  0, 0, 0, 0]]"
  proof -
    have lp: "ReceiveThread_loop ex_env ex_backend ex_client_captured buffer ex_submit_frame =
        (snd (SendUrbCompletion ex_env ex_client_captured 64 0 VUSB_STATUS_NO_DEVICE 0 None),
         [(?h, ?p)])" for buffer
      using ReceiveThread_loop_single [OF k v l m, of ex_env ex_backend buffer]
      unfolding f [symmetric] pm .
    show ?thesis
      unfolding ReceiveThread_def lp using sent by (simp add: ex_env_def)
  qed
  from a r s d t show ?thesis by (intro conjI)
qed

end
